theory Spec2Isabelle
  imports Main "HOL-Library.AList"
begin

section \<open>QuaLiKiz job management (tools/qualikiz/qualikizrun.py)\<close>

text \<open>
  A shallow embedding of \<^verbatim>\<open>qualikizrun.py\<close>: the classes \<^verbatim>\<open>Run\<close> and
  \<^verbatim>\<open>EmptyJob\<close>, the directory walker \<^verbatim>\<open>recursive_function\<close> and the
  submission routine \<^verbatim>\<open>run_job\<close>. Python strings and byte strings are
  \<^typ>\<open>string\<close>; a raised exception is the left summand of a result.
\<close>

subsection \<open>Python values and exceptions\<close>

type_synonym path = string

text \<open>
  The exceptions the module and the library calls it makes can raise.
  \<^verbatim>\<open>KeyboardInterrupt\<close> and \<^verbatim>\<open>SystemExit\<close> derive from
  \<^verbatim>\<open>BaseException\<close> only; every other one derives from \<^verbatim>\<open>Exception\<close>.
\<close>

datatype exn =
    PathException string
  | FileExistsError path
  | FileNotFoundError path
  | NotADirectoryError path
  | IsADirectoryError path
  | OSError string
  | EOFError
  | IndexError
  | UnicodeDecodeError
  | CalledProcessError int
  | PicklingError
  | OtherException string
  | KeyboardInterrupt
  | SystemExit

text \<open>\<^verbatim>\<open>isinstance(e, Exception)\<close>: what an \<^verbatim>\<open>except Exception\<close> clause catches.\<close>

fun is_Exception :: "exn \<Rightarrow> bool" where
  "is_Exception KeyboardInterrupt = False"
| "is_Exception SystemExit = False"
| "is_Exception _ = True"

text \<open>The values the functions of the module return.\<close>

datatype pyval = PyNone | PyInt int | PyStr string

subsection \<open>Class constants\<close>

definition scriptname :: string where
  "scriptname = ''edison.sbatch''"

definition jobdatafile :: string where
  "jobdatafile = ''jobdata.pkl''"

definition metadatafile :: string where
  "metadatafile = ''metadata.csv''"

subsection \<open>\<^verbatim>\<open>os.path\<close> on POSIX\<close>

definition os_path_isabs :: "path \<Rightarrow> bool" where
  "os_path_isabs s = (case s of [] \<Rightarrow> False | c # _ \<Rightarrow> c = CHR ''/'')"

text \<open>
  \<^verbatim>\<open>os.path.join(a, b)\<close>: an absolute \<open>b\<close> replaces \<open>a\<close>; otherwise \<open>b\<close> is
  appended, after a separator unless \<open>a\<close> is empty or ends with one.
\<close>

definition os_path_join :: "path \<Rightarrow> path \<Rightarrow> path" where
  "os_path_join a b =
     (if os_path_isabs b then b
      else if a = [] \<or> last a = CHR ''/'' then a @ b
      else a @ ''/'' @ b)"

text \<open>
  \<^verbatim>\<open>s.split(sep)\<close> for a one-character separator; \<open>cur\<close> is the part being read.
\<close>

fun split_from :: "char \<Rightarrow> string \<Rightarrow> string \<Rightarrow> string list" where
  "split_from sep cur [] = [cur]"
| "split_from sep cur (c # cs) =
     (if c = sep then cur # split_from sep [] cs else split_from sep (cur @ [c]) cs)"

definition split_on :: "char \<Rightarrow> string \<Rightarrow> string list" where
  "split_on sep s = split_from sep [] s"

text \<open>\<^verbatim>\<open>sep.join(parts)\<close>.\<close>

fun join_with :: "string \<Rightarrow> string list \<Rightarrow> string" where
  "join_with sep [] = []"
| "join_with sep [x] = x"
| "join_with sep (x # y # ys) = x @ sep @ join_with sep (y # ys)"

text \<open>
  The loop of \<^verbatim>\<open>posixpath.normpath\<close> over the components: empty components and
  \<^verbatim>\<open>.\<close> are dropped, \<^verbatim>\<open>..\<close> removes the component before it, is kept at the
  start of a relative path and dropped at the root.
\<close>

fun normpath_comps :: "bool \<Rightarrow> string list \<Rightarrow> string list \<Rightarrow> string list" where
  "normpath_comps initial_slashes new_comps [] = new_comps"
| "normpath_comps initial_slashes new_comps (cmp # comps) =
     (if cmp = [] \<or> cmp = ''.'' then normpath_comps initial_slashes new_comps comps
      else if cmp \<noteq> ''..'' \<or> (\<not> initial_slashes \<and> new_comps = [])
                \<or> (new_comps \<noteq> [] \<and> last new_comps = ''..'')
        then normpath_comps initial_slashes (new_comps @ [cmp]) comps
      else if new_comps \<noteq> [] then normpath_comps initial_slashes (butlast new_comps) comps
      else normpath_comps initial_slashes new_comps comps)"

definition os_path_normpath :: "path \<Rightarrow> path" where
  "os_path_normpath p =
     (if p = [] then ''.''
      else
        let initial_slashes =
              (if \<not> os_path_isabs p then 0
               else if take 2 p = ''//'' \<and> take 3 p \<noteq> ''///'' then 2
               else (1::nat));
            comps = normpath_comps (initial_slashes \<noteq> 0) [] (split_on CHR ''/'' p);
            q = replicate initial_slashes CHR ''/'' @ join_with ''/'' comps
        in if q = [] then ''.'' else q)"

text \<open>\<^verbatim>\<open>os.path.abspath\<close>, with the working directory as an argument.\<close>

definition os_path_abspath :: "path \<Rightarrow> path \<Rightarrow> path" where
  "os_path_abspath cwd p =
     os_path_normpath (if os_path_isabs p then p else os_path_join cwd p)"

definition os_path_basename :: "path \<Rightarrow> path" where
  "os_path_basename p = last (split_on CHR ''/'' p)"

subsection \<open>The directory walker \<^verbatim>\<open>recursive_function\<close>\<close>

text \<open>
  The walker reads the file system through \<^verbatim>\<open>os.listdir\<close> and
  \<^verbatim>\<open>os.path.isdir\<close> only, so it is modelled over any world \<open>'w\<close> with these two
  observations. The operation is any function of a path that changes the world and
  returns a value or raises. What the walker itself does is recorded as a trace: each
  application of the operation, each warning and each printed string.
\<close>

datatype event =
    Apply path
  | WarnExn exn
  | Warn string
  | Print string

type_synonym 'w listdir = "'w \<Rightarrow> path \<Rightarrow> exn + string list"
type_synonym 'w isdir = "'w \<Rightarrow> path \<Rightarrow> bool"
type_synonym ('w, 'r) operation = "path \<Rightarrow> 'w \<Rightarrow> (exn + 'r) \<times> 'w"

definition skipping :: string where
  "skipping = ''found exception during recursive run. Skipping..''"

definition dot :: "bool \<Rightarrow> event list" where
  "dot dotprint = (if dotprint then [Print ''.''] else [])"

text \<open>The \<^verbatim>\<open>for folder in os.listdir(path)\<close> loop, over the folders still to visit.\<close>

fun visit_folders ::
  "'w listdir \<Rightarrow> 'w isdir \<Rightarrow> ('w, 'r) operation \<Rightarrow> path \<Rightarrow> bool \<Rightarrow> string list \<Rightarrow>
     'r list \<Rightarrow> event list \<Rightarrow> 'w \<Rightarrow> (exn + 'r list) \<times> event list \<times> 'w" where
  "visit_folders listdir isdir function path dotprint [] results tr w = (Inr results, tr, w)"
| "visit_folders listdir isdir function path dotprint (folder # folders) results tr w =
     (let job_folder = os_path_join path folder in
      if isdir w job_folder then
        (case listdir w job_folder of
           Inl e \<Rightarrow> (Inl e, tr, w)
         | Inr entries \<Rightarrow>
             if scriptname \<in> set entries then
               (case function job_folder w of
                  (Inr r, w') \<Rightarrow>
                    visit_folders listdir isdir function path dotprint folders
                      (results @ [r]) (tr @ [Apply job_folder] @ dot dotprint) w'
                | (Inl e, w') \<Rightarrow>
                    if is_Exception e then
                      visit_folders listdir isdir function path dotprint folders results
                        (tr @ [Apply job_folder, WarnExn e, Warn skipping] @ dot dotprint) w'
                    else (Inl e, tr @ [Apply job_folder], w'))
             else visit_folders listdir isdir function path dotprint folders results tr w)
      else visit_folders listdir isdir function path dotprint folders results tr w)"

definition recursive_function ::
  "'w listdir \<Rightarrow> 'w isdir \<Rightarrow> ('w, 'r) operation \<Rightarrow> path \<Rightarrow> bool \<Rightarrow> 'w \<Rightarrow>
     (exn + 'r list) \<times> event list \<times> 'w" where
  "recursive_function listdir isdir function path dotprint w =
     (case listdir w path of
        Inl e \<Rightarrow> (Inl e, [], w)
      | Inr entries \<Rightarrow>
          if scriptname \<in> set entries then
            (case function path w of
               (Inr r, w') \<Rightarrow> (Inr [r], [Apply path], w')
             | (Inl e, w') \<Rightarrow>
                 if is_Exception e then (Inr [], [Apply path, WarnExn e, Warn skipping], w')
                 else (Inl e, [Apply path], w'))
          else
            (case listdir w path of
               Inl e \<Rightarrow> (Inl e, [], w)
             | Inr folders \<Rightarrow>
                 visit_folders listdir isdir function path dotprint folders [] [] w))"

text \<open>
  What the walker finds out about a folder before it applies the operation:
  \<^verbatim>\<open>os.path.isdir(job_folder)\<close> and then
  \<^verbatim>\<open>Run.scriptname in os.listdir(job_folder)\<close>, which can raise.
\<close>

definition job_dir_check :: "'w listdir \<Rightarrow> 'w isdir \<Rightarrow> 'w \<Rightarrow> path \<Rightarrow> exn + bool" where
  "job_dir_check listdir isdir w p =
     (if isdir w p then
        (case listdir w p of Inl e \<Rightarrow> Inl e | Inr entries \<Rightarrow> Inr (scriptname \<in> set entries))
      else Inr False)"

text \<open>A job directory: a directory that directly contains the script name.\<close>

definition is_job_dir :: "'w listdir \<Rightarrow> 'w isdir \<Rightarrow> 'w \<Rightarrow> path \<Rightarrow> bool" where
  "is_job_dir listdir isdir w p = (job_dir_check listdir isdir w p = Inr True)"

text \<open>The immediate subdirectories of \<open>path\<close> that are job directories, in listing order.\<close>

definition child_job_dirs :: "'w listdir \<Rightarrow> 'w isdir \<Rightarrow> 'w \<Rightarrow> path \<Rightarrow> string list \<Rightarrow> path list" where
  "child_job_dirs listdir isdir w path entries =
     map (os_path_join path) (filter (\<lambda>f. is_job_dir listdir isdir w (os_path_join path f)) entries)"

text \<open>The operation never changes what the walker finds out about any folder.\<close>

definition keeps_job_dirs :: "'w listdir \<Rightarrow> 'w isdir \<Rightarrow> ('w, 'r) operation \<Rightarrow> bool" where
  "keeps_job_dirs listdir isdir function =
     (\<forall>p w q. job_dir_check listdir isdir (snd (function p w)) q = job_dir_check listdir isdir w q)"

text \<open>The operation raises nothing but instances of \<^verbatim>\<open>Exception\<close>.\<close>

definition raises_only_Exception :: "('w, 'r) operation \<Rightarrow> bool" where
  "raises_only_Exception function =
     (\<forall>p w e. fst (function p w) = Inl e \<longrightarrow> is_Exception e)"

text \<open>
  The reference the walker is compared with: the operation applied to each candidate in
  turn, every outcome kept with its directory, whether a value or an exception.
\<close>

fun apply_each :: "('w, 'r) operation \<Rightarrow> path list \<Rightarrow> 'w \<Rightarrow> (path \<times> (exn + 'r)) list \<times> 'w" where
  "apply_each function [] w = ([], w)"
| "apply_each function (p # ps) w =
     (let (x, w') = function p w; (xs, w'') = apply_each function ps w'
      in ((p, x) # xs, w''))"

fun successes :: "(path \<times> (exn + 'r)) list \<Rightarrow> 'r list" where
  "successes [] = []"
| "successes ((p, Inr r) # xs) = r # successes xs"
| "successes ((p, Inl e) # xs) = successes xs"

fun failures :: "(path \<times> (exn + 'r)) list \<Rightarrow> exn list" where
  "failures [] = []"
| "failures ((p, Inr r) # xs) = failures xs"
| "failures ((p, Inl e) # xs) = e # failures xs"

text \<open>Projections of the walker's trace.\<close>

fun applied :: "event list \<Rightarrow> path list" where
  "applied [] = []"
| "applied (Apply p # tr) = p # applied tr"
| "applied (_ # tr) = applied tr"

fun warned :: "event list \<Rightarrow> exn list" where
  "warned [] = []"
| "warned (WarnExn e # tr) = e # warned tr"
| "warned (_ # tr) = warned tr"

fun printed :: "event list \<Rightarrow> string list" where
  "printed [] = []"
| "printed (Print s # tr) = s # printed tr"
| "printed (_ # tr) = printed tr"

text \<open>The trace without its warnings: applications and printed strings, in order.\<close>

fun progress :: "event list \<Rightarrow> event list" where
  "progress [] = []"
| "progress (WarnExn e # tr) = progress tr"
| "progress (Warn s # tr) = progress tr"
| "progress (ev # tr) = ev # progress tr"

text \<open>
  The trace the walker leaves in the loop over the folders, from the outcomes of the
  operation: the application, the two warnings after an exception, the dot.
\<close>

fun children_trace :: "bool \<Rightarrow> (path \<times> (exn + 'r)) list \<Rightarrow> event list" where
  "children_trace d [] = []"
| "children_trace d ((p, Inr r) # xs) = [Apply p] @ dot d @ children_trace d xs"
| "children_trace d ((p, Inl e) # xs) =
     [Apply p, WarnExn e, Warn skipping] @ dot d @ children_trace d xs"

text \<open>The directories the operation is to be applied to: the path itself or its children.\<close>

definition candidates :: "'w listdir \<Rightarrow> 'w isdir \<Rightarrow> 'w \<Rightarrow> path \<Rightarrow> string list \<Rightarrow> path list" where
  "candidates listdir isdir w path entries =
     (if scriptname \<in> set entries then [path] else child_job_dirs listdir isdir w path entries)"

text \<open>No listing of a child directory raises.\<close>

definition children_listable :: "'w listdir \<Rightarrow> 'w isdir \<Rightarrow> 'w \<Rightarrow> path \<Rightarrow> string list \<Rightarrow> bool" where
  "children_listable listdir isdir w path entries =
     (\<forall>f\<in>set entries. \<forall>e. job_dir_check listdir isdir w (os_path_join path f) \<noteq> Inl e)"

subsection \<open>A tree of runs to walk\<close>

text \<open>
  A runs directory with the job directories \<^verbatim>\<open>a\<close> and \<^verbatim>\<open>b\<close>, a directory
  \<^verbatim>\<open>c\<close> that is no job directory but holds one, and a plain file. The world is the
  number of applications of the operation so far.
\<close>

definition example_listdir :: "nat listdir" where
  "example_listdir w p =
     (if p = ''/runs'' then Inr [''a'', ''b'', ''c'', ''notes.txt'']
      else if p = ''/runs/a'' then Inr [''edison.sbatch'', ''parameters.py'']
      else if p = ''/runs/b'' then Inr [''deep'', ''edison.sbatch'']
      else if p = ''/runs/c'' then Inr [''deep'']
      else if p = ''/runs/c/deep'' then Inr [''edison.sbatch'']
      else if p = ''/runs/b/deep'' then Inr [''edison.sbatch'']
      else Inl (FileNotFoundError p))"

definition example_isdir :: "nat isdir" where
  "example_isdir w p =
     (p \<in> set [''/runs'', ''/runs/a'', ''/runs/b'', ''/runs/c'', ''/runs/c/deep'',
                ''/runs/b/deep''])"

text \<open>An operation that fails in \<^verbatim>\<open>/runs/a\<close> and returns the path elsewhere.\<close>

definition example_operation :: "(nat, string) operation" where
  "example_operation p w =
     (if p = ''/runs/a'' then (Inl (OtherException ''failed''), Suc w) else (Inr p, Suc w))"

text \<open>An operation interrupted from the keyboard in \<^verbatim>\<open>/runs/a\<close>.\<close>

definition interrupted_operation :: "(nat, string) operation" where
  "interrupted_operation p w =
     (if p = ''/runs/a'' then (Inl KeyboardInterrupt, Suc w) else (Inr p, Suc w))"




subsection \<open>The world: file system, terminal, warnings\<close>

text \<open>
  The file system is a table from the components of an absolute path to the node
  there; the root is a directory that always exists. Paths are resolved lexically:
  a symbolic link is a node of its own and is never followed, and a path that is to be
  opened and ends in one is refused. The terminal is the lines still to be typed and
  the strings printed so far.
\<close>

datatype node = Dir | File string | Symlink path

record world =
  fs :: "(string list \<times> node) list"
  cwd :: path
  stdin :: "string list"
  stdout :: "string list"
  warnings :: "string list"

text \<open>A procedure: it changes the world and returns a value or raises.\<close>

type_synonym 'a io = "world \<Rightarrow> (exn + 'a) \<times> world"

definition return :: "'a \<Rightarrow> 'a io" where
  "return x w = (Inr x, w)"

definition raise :: "exn \<Rightarrow> 'a io" where
  "raise e w = (Inl e, w)"

definition bind :: "'a io \<Rightarrow> ('a \<Rightarrow> 'b io) \<Rightarrow> 'b io" where
  "bind m k w = (case m w of (Inl e, w') \<Rightarrow> (Inl e, w') | (Inr x, w') \<Rightarrow> k x w')"

text \<open>A computation without effect, such as \<^verbatim>\<open>bytes.decode\<close>, as a procedure.\<close>

definition lift :: "exn + 'a \<Rightarrow> 'a io" where
  "lift r w = (r, w)"

text \<open>The subclasses of \<^verbatim>\<open>OSError\<close> among the exceptions.\<close>

fun is_OSError :: "exn \<Rightarrow> bool" where
  "is_OSError (FileExistsError p) = True"
| "is_OSError (FileNotFoundError p) = True"
| "is_OSError (NotADirectoryError p) = True"
| "is_OSError (IsADirectoryError p) = True"
| "is_OSError (OSError s) = True"
| "is_OSError _ = False"

fun is_FileExistsError :: "exn \<Rightarrow> bool" where
  "is_FileExistsError (FileExistsError p) = True"
| "is_FileExistsError _ = False"

text \<open>The components a path resolves to, relative paths from the working directory.\<close>

definition locate :: "world \<Rightarrow> path \<Rightarrow> string list" where
  "locate w p =
     normpath_comps True []
       (split_on CHR ''/'' (if os_path_isabs p then p else os_path_join (cwd w) p))"

definition node_of :: "world \<Rightarrow> string list \<Rightarrow> node option" where
  "node_of w cs = (if cs = [] then Some Dir else map_of (fs w) cs)"

definition node_at :: "world \<Rightarrow> path \<Rightarrow> node option" where
  "node_at w p = node_of w (locate w p)"

definition os_path_exists :: "world \<Rightarrow> path \<Rightarrow> bool" where
  "os_path_exists w p = (node_at w p \<noteq> None)"

definition os_path_isdir :: "world isdir" where
  "os_path_isdir w p = (node_at w p = Some Dir)"

definition os_listdir :: "world listdir" where
  "os_listdir w p =
     (case node_at w p of
        None \<Rightarrow> Inl (FileNotFoundError p)
      | Some Dir \<Rightarrow>
          Inr (map (\<lambda>(k, n). last k)
                 (filter (\<lambda>(k, n). k \<noteq> [] \<and> butlast k = locate w p) (fs w)))
      | Some _ \<Rightarrow> Inl (NotADirectoryError p))"

text \<open>A new node at the components \<open>cs\<close> of \<open>p\<close>, as \<^verbatim>\<open>mkdir\<close> and \<^verbatim>\<open>symlink\<close> make it.\<close>

definition create :: "string list \<Rightarrow> node \<Rightarrow> path \<Rightarrow> unit io" where
  "create cs n p w =
     (if node_of w cs \<noteq> None then (Inl (FileExistsError p), w)
      else
        (case node_of w (butlast cs) of
           None \<Rightarrow> (Inl (FileNotFoundError p), w)
         | Some Dir \<Rightarrow> (Inr (), w\<lparr>fs := fs w @ [(cs, n)]\<rparr>)
         | Some _ \<Rightarrow> (Inl (NotADirectoryError p), w)))"

definition os_mkdir :: "path \<Rightarrow> unit io" where
  "os_mkdir p w = create (locate w p) Dir p w"

definition os_symlink :: "path \<Rightarrow> path \<Rightarrow> unit io" where
  "os_symlink src dst w = create (locate w dst) (Symlink src) dst w"

text \<open>
  \<^verbatim>\<open>os.makedirs(p, exist_ok=True)\<close>: a missing parent is made first, an
  \<^verbatim>\<open>OSError\<close> of the final \<^verbatim>\<open>mkdir\<close> is dropped when the directory is there.
\<close>

function os_makedirs_comps :: "string list \<Rightarrow> path \<Rightarrow> unit io" where
  "os_makedirs_comps cs p w =
     (case (if cs \<noteq> [] \<and> node_of w (butlast cs) = None then
              (case os_makedirs_comps (butlast cs) p w of
                 (Inl e, w') \<Rightarrow> if is_FileExistsError e then (Inr (), w') else (Inl e, w')
               | (Inr u, w') \<Rightarrow> (Inr (), w'))
            else (Inr (), w)) of
        (Inl e, w') \<Rightarrow> (Inl e, w')
      | (Inr u, w') \<Rightarrow>
          (case create cs Dir p w' of
             (Inl e, w'') \<Rightarrow>
               if is_OSError e \<and> node_of w'' cs = Some Dir then (Inr (), w'') else (Inl e, w'')
           | (Inr u', w'') \<Rightarrow> (Inr (), w'')))"
  by pat_completeness auto
termination
  by (relation "measure (\<lambda>(cs, p, w). length cs)") auto

definition os_makedirs :: "path \<Rightarrow> unit io" where
  "os_makedirs p w = os_makedirs_comps (locate w p) p w"

text \<open>\<^verbatim>\<open>shutil.rmtree\<close>: the directory goes with everything below it.\<close>

definition shutil_rmtree :: "path \<Rightarrow> unit io" where
  "shutil_rmtree p w =
     (case node_at w p of
        None \<Rightarrow> (Inl (FileNotFoundError p), w)
      | Some Dir \<Rightarrow>
          (Inr (), w\<lparr>fs := filter (\<lambda>(k, n). take (length (locate w p)) k \<noteq> locate w p) (fs w)\<rparr>)
      | Some (File c) \<Rightarrow> (Inl (NotADirectoryError p), w)
      | Some (Symlink t) \<Rightarrow> (Inl (OSError ''Cannot call rmtree on a symbolic link''), w))"

text \<open>\<^verbatim>\<open>open(p)\<close> and reading all of the file.\<close>

definition open_read :: "path \<Rightarrow> string io" where
  "open_read p w =
     (case node_at w p of
        None \<Rightarrow> (Inl (FileNotFoundError p), w)
      | Some Dir \<Rightarrow> (Inl (IsADirectoryError p), w)
      | Some (File c) \<Rightarrow> (Inr c, w)
      | Some (Symlink t) \<Rightarrow> (Inl (OSError ''symbolic link''), w))"

text \<open>
  \<^verbatim>\<open>open(p, 'w')\<close>, writing \<open>c\<close> and closing: the file is made or replaced, never
  appended to.
\<close>

definition open_write :: "path \<Rightarrow> string \<Rightarrow> unit io" where
  "open_write p c w =
     (case node_at w p of
        Some Dir \<Rightarrow> (Inl (IsADirectoryError p), w)
      | Some (Symlink t) \<Rightarrow> (Inl (OSError ''symbolic link''), w)
      | _ \<Rightarrow>
          (case node_of w (butlast (locate w p)) of
             None \<Rightarrow> (Inl (FileNotFoundError p), w)
           | Some Dir \<Rightarrow> (Inr (), w\<lparr>fs := AList.update (locate w p) (File c) (fs w)\<rparr>)
           | Some _ \<Rightarrow> (Inl (NotADirectoryError p), w)))"

text \<open>
  Reading in text mode translates \<^verbatim>\<open>\r\n\<close> and \<^verbatim>\<open>\r\<close> to \<^verbatim>\<open>\n\<close>;
  \<^verbatim>\<open>readlines\<close> cuts the text after each \<^verbatim>\<open>\n\<close>.
\<close>

fun universal_newlines :: "string \<Rightarrow> string" where
  "universal_newlines [] = []"
| "universal_newlines [c] = (if c = CHR 0x0D then [CHR 0x0A] else [c])"
| "universal_newlines (c # d # s) =
     (if c = CHR 0x0D \<and> d = CHR 0x0A then CHR 0x0A # universal_newlines s
      else if c = CHR 0x0D then CHR 0x0A # universal_newlines (d # s)
      else c # universal_newlines (d # s))"

fun lines_keepends :: "string \<Rightarrow> string list" where
  "lines_keepends [] = []"
| "lines_keepends (c # s) =
     (if c = CHR 0x0A then [c] # lines_keepends s
      else (case lines_keepends s of [] \<Rightarrow> [[c]] | l # ls \<Rightarrow> (c # l) # ls))"

definition readlines :: "path \<Rightarrow> string list io" where
  "readlines p = bind (open_read p) (\<lambda>c. return (lines_keepends (universal_newlines c)))"

text \<open>\<^verbatim>\<open>writelines\<close> on a file opened for writing: the items one after the other.\<close>

definition writelines :: "path \<Rightarrow> string list \<Rightarrow> unit io" where
  "writelines p ls = open_write p (concat ls)"

definition py_print :: "string \<Rightarrow> unit io" where
  "py_print s w = (Inr (), w\<lparr>stdout := stdout w @ [s @ [CHR 0x0A]]\<rparr>)"

text \<open>\<^verbatim>\<open>input(prompt)\<close>: the next line typed, without its line end.\<close>

definition py_input :: "string \<Rightarrow> string io" where
  "py_input prompt w =
     (case stdin w of
        [] \<Rightarrow> (Inl EOFError, w\<lparr>stdout := stdout w @ [prompt]\<rparr>)
      | r # rs \<Rightarrow> (Inr r, w\<lparr>stdin := rs, stdout := stdout w @ [prompt]\<rparr>))"

definition warn :: "string \<Rightarrow> unit io" where
  "warn msg w = (Inr (), w\<lparr>warnings := warnings w @ [msg]\<rparr>)"

subsection \<open>Byte strings: \<^verbatim>\<open>split\<close>, \<^verbatim>\<open>strip\<close>, \<^verbatim>\<open>decode\<close>\<close>

text \<open>The ASCII whitespace of \<^verbatim>\<open>bytes.split()\<close> and \<^verbatim>\<open>bytes.strip()\<close>.\<close>

definition is_space :: "char \<Rightarrow> bool" where
  "is_space c = (c \<in> set [CHR '' '', CHR 0x09, CHR 0x0A, CHR 0x0D, CHR 0x0B, CHR 0x0C])"

text \<open>\<^verbatim>\<open>output.split()\<close>: the maximal runs without whitespace; \<open>cur\<close> is the run being read.\<close>

fun split_ws :: "string \<Rightarrow> string \<Rightarrow> string list" where
  "split_ws cur [] = (if cur = [] then [] else [cur])"
| "split_ws cur (c # cs) =
     (if is_space c then (if cur = [] then split_ws [] cs else cur # split_ws [] cs)
      else split_ws (cur @ [c]) cs)"

definition strip :: "string \<Rightarrow> string" where
  "strip s = rev (dropWhile is_space (rev (dropWhile is_space s)))"

text \<open>
  Well-formed UTF-8, on the byte values. A decoded string is kept as its UTF-8 bytes.
\<close>

definition cont :: "nat \<Rightarrow> bool" where
  "cont b = (0x80 \<le> b \<and> b \<le> 0xBF)"

fun utf8_valid :: "nat list \<Rightarrow> bool" where
  "utf8_valid [] = True"
| "utf8_valid (a # rest) =
     (if a < 0x80 then utf8_valid rest
      else if 0xC2 \<le> a \<and> a \<le> 0xDF then
        (case rest of b # r \<Rightarrow> cont b \<and> utf8_valid r | _ \<Rightarrow> False)
      else if 0xE0 \<le> a \<and> a \<le> 0xEF then
        (case rest of
           b # c # r \<Rightarrow>
             (if a = 0xE0 then 0xA0 \<le> b \<and> b \<le> 0xBF
              else if a = 0xED then 0x80 \<le> b \<and> b \<le> 0x9F
              else cont b) \<and> cont c \<and> utf8_valid r
         | _ \<Rightarrow> False)
      else if 0xF0 \<le> a \<and> a \<le> 0xF4 then
        (case rest of
           b # c # d # r \<Rightarrow>
             (if a = 0xF0 then 0x90 \<le> b \<and> b \<le> 0xBF
              else if a = 0xF4 then 0x80 \<le> b \<and> b \<le> 0x8F
              else cont b) \<and> cont c \<and> cont d \<and> utf8_valid r
         | _ \<Rightarrow> False)
      else False)"

definition decode_utf8 :: "string \<Rightarrow> exn + string" where
  "decode_utf8 s = (if utf8_valid (map of_char s) then Inr s else Inl UnicodeDecodeError)"

subsection \<open>\<^verbatim>\<open>csv.writer\<close> with the default dialect\<close>

text \<open>
  A field is quoted when it holds the delimiter, the quote character or a character of
  the line terminator; a quote inside is doubled. A row ends with \<^verbatim>\<open>\r\n\<close>.
\<close>

definition csv_field :: "string \<Rightarrow> string" where
  "csv_field s =
     (if \<exists>c\<in>set s. c \<in> set [CHR '','', CHR 0x22, CHR 0x0D, CHR 0x0A] then
        [CHR 0x22] @ concat (map (\<lambda>c. if c = CHR 0x22 then [c, c] else [c]) s) @ [CHR 0x22]
      else s)"

definition csv_writerow :: "string list \<Rightarrow> string" where
  "csv_writerow row = join_with '','' (map csv_field row) @ [CHR 0x0D, CHR 0x0A]"

subsection \<open>Class \<^verbatim>\<open>Run\<close> and class \<^verbatim>\<open>EmptyJob\<close>\<close>

text \<open>
  The batch script object is of a class of \<^verbatim>\<open>edisonbatch.py\<close>, which is not among
  the sources: its type is a parameter \<open>'b\<close>, and its method \<^verbatim>\<open>to_file\<close> is an
  argument \<open>batch_to_file\<close> of what calls it.
\<close>

record 'b EmptyJob =
  binary_path :: path
  parameters_script :: string
  name :: string
  batch :: 'b

text \<open>The dictionary \<^verbatim>\<open>jobs\<close> is kept as its items, in insertion order.\<close>

record 'b Run =
  jobs :: "(string \<times> 'b EmptyJob) list"
  rootdir :: path
  qualikizdir :: path
  runsdir :: path

text \<open>The message of a \<^verbatim>\<open>PathException\<close>, whose argument names the parameter.\<close>

definition PathException_message :: "string \<Rightarrow> string" where
  "PathException_message p = p @ '' must be an absolute path or bad things will happen!''"

text \<open>\<^verbatim>\<open>Run.__init__\<close>; the keyword arguments default to the empty string.\<close>

definition Run_init :: "path \<Rightarrow> path \<Rightarrow> path \<Rightarrow> exn + 'b Run" where
  "Run_init rootdir' qualikizdir' runsdir' =
     (if \<not> os_path_isabs rootdir' then Inl (PathException ''rootdir'')
      else
        let self_qualikizdir =
              (if qualikizdir' = [] then os_path_join rootdir' ''tools/qualikiz''
               else qualikizdir');
            self_runsdir =
              (if runsdir' = [] then os_path_join rootdir' ''runs'' else runsdir')
        in if \<not> os_path_isabs self_qualikizdir then Inl (PathException ''qualikizdir'')
           else if \<not> os_path_isabs self_runsdir then Inl (PathException ''runsdir'')
           else Inr \<lparr>jobs = [], rootdir = rootdir', qualikizdir = self_qualikizdir,
                     runsdir = self_runsdir\<rparr>)"

text \<open>\<^verbatim>\<open>EmptyJob.__init__\<close>; \<open>cwd'\<close> is the working directory \<^verbatim>\<open>abspath\<close> reads.\<close>

definition EmptyJob_init ::
  "path \<Rightarrow> path \<Rightarrow> string \<Rightarrow> path \<Rightarrow> 'b \<Rightarrow> string \<Rightarrow> exn + 'b EmptyJob" where
  "EmptyJob_init cwd' rootdir' name' binary_basename batch' parameters_script' =
     (if os_path_isabs rootdir' then
        Inr \<lparr>binary_path = os_path_abspath cwd' (os_path_join rootdir' binary_basename),
             parameters_script = parameters_script', name = name', batch = batch'\<rparr>
      else Inl (PathException ''rootdir''))"

text \<open>
  The \<^verbatim>\<open>try: os.mkdir(path)\<close> statement of \<^verbatim>\<open>EmptyJob.to_file\<close> with its handler.
  The result says whether the method goes on (\<open>True\<close>) or returns \<open>1\<close> (\<open>False\<close>).
\<close>

definition affirmative :: "string \<Rightarrow> bool" where
  "affirmative resp = (resp = [] \<or> resp = ''Y'' \<or> resp = ''y'')"

definition make_job_dir :: "path \<Rightarrow> bool \<Rightarrow> bool io" where
  "make_job_dir path overwrite w =
     (case os_mkdir path w of
        (Inr u, w1) \<Rightarrow> (Inr True, w1)
      | (Inl e, w1) \<Rightarrow>
          if is_FileExistsError e then
            bind (if \<not> overwrite then
                    bind (py_input ''folder exists, overwrite? [Y/n]'')
                      (\<lambda>resp. return (affirmative resp))
                  else return True)
              (\<lambda>overwrite'.
                 if overwrite' then
                   bind (py_print ''overwriting'') (\<lambda>_.
                   bind (shutil_rmtree path) (\<lambda>_.
                   bind (os_mkdir path) (\<lambda>_. return True)))
                 else bind (py_print ''aborting'') (\<lambda>_. return False)) w1
          else (Inl e, w1))"

text \<open>
  \<^verbatim>\<open>pickle.dump(self, file_)\<close> into a file opened with \<^verbatim>\<open>'wb'\<close>: the file is made
  empty, then the bytes \<open>dumps\<close> gives are written, unless pickling raises.
\<close>

definition pickle_dump :: "('a \<Rightarrow> exn + string) \<Rightarrow> 'a \<Rightarrow> path \<Rightarrow> unit io" where
  "pickle_dump dumps obj p =
     bind (open_write p []) (\<lambda>_.
     bind (lift (dumps obj)) (\<lambda>bytes. open_write p bytes))"

text \<open>The statements of \<^verbatim>\<open>EmptyJob.to_file\<close> after the job directory is there.\<close>

definition fill_job_dir ::
  "('b \<Rightarrow> path \<Rightarrow> unit io) \<Rightarrow> ('b EmptyJob \<Rightarrow> exn + string) \<Rightarrow> 'b EmptyJob \<Rightarrow> path \<Rightarrow> path \<Rightarrow>
     bool \<Rightarrow> pyval io" where
  "fill_job_dir batch_to_file dumps self qualikizdir' path metapickle =
     bind (\<lambda>w. if \<not> os_path_exists w (binary_path self)
               then warn (''Warning! Binary at '' @ binary_path self @ '' does not ''
                          @ ''exist! Run will fail!'') w
               else (Inr (), w)) (\<lambda>_.
     bind (os_symlink (binary_path self)
             (os_path_join path (os_path_basename (binary_path self)))) (\<lambda>_.
     bind (os_symlink qualikizdir' (os_path_join path ''qualikiz'')) (\<lambda>_.
     bind (os_makedirs (os_path_join path ''output/primitive'')) (\<lambda>_.
     bind (os_makedirs (os_path_join path ''debug'')) (\<lambda>_.
     bind (batch_to_file (batch self) (os_path_join path scriptname)) (\<lambda>_.
     bind (if parameters_script self = []
           then readlines (os_path_join qualikizdir' ''parameters_template.py'')
           else return (map (\<lambda>c. [c]) (parameters_script self))) (\<lambda>parameters_script'.
     bind (writelines (os_path_join path ''parameters.py'') parameters_script') (\<lambda>_.
     bind (if metapickle then pickle_dump dumps self (os_path_join path ''jobdata.pkl'')
           else return ()) (\<lambda>_.
     return PyNone)))))))))"

definition EmptyJob_to_file ::
  "('b \<Rightarrow> path \<Rightarrow> unit io) \<Rightarrow> ('b EmptyJob \<Rightarrow> exn + string) \<Rightarrow> 'b EmptyJob \<Rightarrow> path \<Rightarrow> path \<Rightarrow>
     bool \<Rightarrow> bool \<Rightarrow> pyval io" where
  "EmptyJob_to_file batch_to_file dumps self runsdir' qualikizdir' overwrite metapickle =
     (if \<not> os_path_isabs qualikizdir' then raise (PathException ''qualikizdir'')
      else if \<not> os_path_isabs runsdir' then raise (PathException ''runsdir'')
      else
        bind (\<lambda>w. if \<not> os_path_isdir w runsdir' then os_mkdir runsdir' w else (Inr (), w)) (\<lambda>_.
        bind (\<lambda>w. (Inr (os_path_abspath (cwd w) (os_path_join runsdir' (name self))), w)) (\<lambda>path.
        bind (make_job_dir path overwrite) (\<lambda>go_on.
          if go_on then fill_job_dir batch_to_file dumps self qualikizdir' path metapickle
          else return (PyInt 1)))))"

text \<open>\<^verbatim>\<open>Run.to_file\<close>: the loop over the items of \<^verbatim>\<open>self.jobs\<close>.\<close>

fun jobs_to_file ::
  "('b \<Rightarrow> path \<Rightarrow> unit io) \<Rightarrow> ('b EmptyJob \<Rightarrow> exn + string) \<Rightarrow> path \<Rightarrow> path \<Rightarrow> bool \<Rightarrow>
     (string \<times> 'b EmptyJob) list \<Rightarrow> pyval io" where
  "jobs_to_file batch_to_file dumps runsdir' qualikizdir' overwrite [] = return PyNone"
| "jobs_to_file batch_to_file dumps runsdir' qualikizdir' overwrite ((key, job) # items) =
     bind (EmptyJob_to_file batch_to_file dumps job runsdir' qualikizdir' overwrite True)
       (\<lambda>_. jobs_to_file batch_to_file dumps runsdir' qualikizdir' overwrite items)"

definition Run_to_file ::
  "('b \<Rightarrow> path \<Rightarrow> unit io) \<Rightarrow> ('b EmptyJob \<Rightarrow> exn + string) \<Rightarrow> 'b Run \<Rightarrow> bool \<Rightarrow> pyval io" where
  "Run_to_file batch_to_file dumps self overwrite =
     jobs_to_file batch_to_file dumps (runsdir self) (qualikizdir self) overwrite (jobs self)"

subsection \<open>\<^verbatim>\<open>generate_input\<close> and \<^verbatim>\<open>run_job\<close>\<close>

text \<open>
  The external programs are arguments: \<open>check_call\<close> and \<open>check_output\<close> run a
  command, change the world and return (the latter the bytes the command printed) or
  raise; \<open>now\<close> is \<^verbatim>\<open>str(datetime.datetime.now())\<close>.
\<close>

definition generate_input :: "(string list \<Rightarrow> unit io) \<Rightarrow> path \<Rightarrow> pyval io" where
  "generate_input check_call job_folder =
     bind (\<lambda>w. check_call
             [''python'', os_path_abspath (cwd w) (os_path_join job_folder ''parameters.py'')] w)
       (\<lambda>_. return PyNone)"

definition last_token :: "string \<Rightarrow> exn + string" where
  "last_token output =
     (case split_ws [] output of [] \<Rightarrow> Inl IndexError | t # ts \<Rightarrow> Inr (last (t # ts)))"

text \<open>The first statement of \<^verbatim>\<open>run_job\<close>: the warning when the input binary is missing.\<close>

definition warn_missing_input :: "path \<Rightarrow> unit io" where
  "warn_missing_input job_folder w =
     (if \<not> os_path_exists w (os_path_join job_folder ''input/p1.bin'')
      then warn (''Warning! Input binary at ''
                 @ os_path_join job_folder ''input/p1.bin'' @ '' does not ''
                 @ ''exist! Run will fail! Please generate input binaries with ''
                 @ ''parameters.py'') w
      else (Inr (), w))"

definition run_job :: "(string \<Rightarrow> string io) \<Rightarrow> string \<Rightarrow> path \<Rightarrow> pyval io" where
  "run_job check_output now job_folder =
     bind (warn_missing_input job_folder) (\<lambda>_.
     bind (check_output ''git describe --tags'') (\<lambda>describe.
     bind (lift (decode_utf8 (strip describe))) (\<lambda>qualikiz_version.
     bind (check_output (''sbatch --workdir='' @ job_folder @ '' ''
                         @ os_path_join job_folder scriptname)) (\<lambda>output.
     bind (lift (last_token output)) (\<lambda>token.
     bind (lift (decode_utf8 token)) (\<lambda>jobnumber.
     bind (open_write (os_path_join job_folder metadatafile)
             (csv_writerow [''jobnumber'', jobnumber]
              @ csv_writerow [''submittime'', now]
              @ csv_writerow [''qualikiz_version'', qualikiz_version])) (\<lambda>_.
     bind (py_print jobnumber) (\<lambda>_.
     return PyNone))))))))"

subsection \<open>A world to materialize and submit jobs in\<close>

text \<open>
  Here a batch script object is the text of its script, and its \<^verbatim>\<open>to_file\<close>
  writes that text.
\<close>

definition example_batch_to_file :: "string \<Rightarrow> path \<Rightarrow> unit io" where
  "example_batch_to_file b p = open_write p b"

definition example_job :: "string EmptyJob" where
  "example_job =
     \<lparr>binary_path = ''/q/QuaLiKiz'', parameters_script = ''print(1)'', name = ''job'',
      batch = ''#!/bin/bash''\<rparr>"

definition template_job :: "string EmptyJob" where
  "template_job =
     \<lparr>binary_path = ''/q/QuaLiKiz'', parameters_script = [], name = ''new'',
      batch = ''#!/bin/bash''\<rparr>"

text \<open>A pickle that stands for the job of that name, for the two jobs above.\<close>

definition example_dumps :: "string EmptyJob \<Rightarrow> exn + string" where
  "example_dumps job = Inr (''pickle of '' @ name job)"

definition example_loads :: "string \<Rightarrow> string EmptyJob option" where
  "example_loads bytes =
     (if bytes = ''pickle of job'' then Some example_job
      else if bytes = ''pickle of new'' then Some template_job
      else None)"

text \<open>
  The runs directory holds the directory \<^verbatim>\<open>job\<close> with one file; the tools directory
  holds the template. The operator types \<^verbatim>\<open>n\<close>.
\<close>

definition example_world :: world where
  "example_world =
     \<lparr>fs = [([''runs''], Dir), ([''runs'', ''job''], Dir),
            ([''runs'', ''job'', ''old.txt''], File ''old''),
            ([''q''], Dir), ([''q'', ''tools''], Dir),
            ([''q'', ''tools'', ''parameters_template.py''], File ''x = 1''),
            ([''q'', ''QuaLiKiz''], File ''ELF'')],
      cwd = ''/'', stdin = [''n''], stdout = [], warnings = []\<rparr>"

text \<open>
  A run with the default tools directory, in which the world above has no template: the
  first job, without a script of its own, cannot be materialized; the second can.
\<close>

definition example_run :: "string Run" where
  "example_run =
     \<lparr>jobs = [(''new'', template_job), (''job'', example_job)], rootdir = ''/q'',
      qualikizdir = ''/q/tools/qualikiz'', runsdir = ''/runs''\<rparr>"

text \<open>The version control tool and the scheduler, as the commands of \<^verbatim>\<open>run_job\<close> see them.\<close>

definition example_check_output :: "string \<Rightarrow> string io" where
  "example_check_output cmd w =
     (if cmd = ''git describe --tags'' then (Inr (''v2.3.1'' @ [CHR 0x0A]), w)
      else if take 6 cmd = ''sbatch'' then (Inr (''Submitted batch job 12345'' @ [CHR 0x0A]), w)
      else (Inl (CalledProcessError 127), w))"

text \<open>The same world after an earlier submission: the job directory has a metadata file.\<close>

definition resubmitted_world :: world where
  "resubmitted_world =
     example_world\<lparr>fs := fs example_world
        @ [([''runs'', ''job'', ''metadata.csv''], File ''jobnumber,7'')]\<rparr>"


subsection \<open>Reading back what was written\<close>

text \<open>The text of the file at a path, when there is a file.\<close>

definition file_text :: "world \<Rightarrow> path \<Rightarrow> string option" where
  "file_text w p = (case node_at w p of Some (File c) \<Rightarrow> Some c | _ \<Rightarrow> None)"

text \<open>
  \<^verbatim>\<open>pickle.load\<close> on the file at a path, for a function \<open>loads\<close> from bytes to
  objects.
\<close>

definition pickle_load :: "(string \<Rightarrow> 'a option) \<Rightarrow> world \<Rightarrow> path \<Rightarrow> 'a option" where
  "pickle_load loads w p = (case file_text w p of Some bytes \<Rightarrow> loads bytes | None \<Rightarrow> None)"

text \<open>A file name that is one path component and names no directory.\<close>

definition simple_name :: "string \<Rightarrow> bool" where
  "simple_name n = (n \<noteq> [] \<and> CHR ''/'' \<notin> set n \<and> n \<noteq> ''.'' \<and> n \<noteq> ''..'')"

text \<open>A path that \<^verbatim>\<open>open(p, 'w')\<close> can open: no directory, in a directory that exists.\<close>

definition writable :: "world \<Rightarrow> path \<Rightarrow> bool" where
  "writable w p =
     (case node_at w p of
        Some Dir \<Rightarrow> False
      | Some (Symlink t) \<Rightarrow> False
      | _ \<Rightarrow> node_of w (butlast (locate w p)) = Some Dir)"

section \<open>Properties\<close>

subsection \<open>The walker\<close>

text \<open>
  The loop over the folders is compared with \<open>apply_each\<close> on the child job
  directories: first for a walk that returns, then the other way round, that the walk
  returns when the operation raises instances of \<^verbatim>\<open>Exception\<close> only and every
  child directory can be listed.
\<close>

lemma applied_append [simp]: "applied (xs @ ys) = applied xs @ applied ys"
  by (induction xs rule: applied.induct) auto

lemma warned_append [simp]: "warned (xs @ ys) = warned xs @ warned ys"
  by (induction xs rule: warned.induct) auto

lemma printed_append [simp]: "printed (xs @ ys) = printed xs @ printed ys"
  by (induction xs rule: printed.induct) auto

lemma progress_append [simp]: "progress (xs @ ys) = progress xs @ progress ys"
  by (induction xs rule: progress.induct) auto

lemma applied_dot [simp]: "applied (dot d) = []"
  by (simp add: dot_def)

lemma warned_dot [simp]: "warned (dot d) = []"
  by (simp add: dot_def)

lemma progress_dot [simp]: "progress (dot d) = dot d"
  by (simp add: dot_def)

lemma keeps_job_dirsD:
  "keeps_job_dirs listdir isdir function \<Longrightarrow> function p w = (x, w') \<Longrightarrow>
     job_dir_check listdir isdir w' q = job_dir_check listdir isdir w q"
  unfolding keeps_job_dirs_def by (metis snd_conv)

lemma visit_folders_normal:
  assumes "keeps_job_dirs listdir isdir function"
    and "visit_folders listdir isdir function path dotprint folders results tr w = (Inr rs, tr', w')"
  shows "rs = results @ successes (fst (apply_each function (child_job_dirs listdir isdir w path folders) w))
       \<and> tr' = tr @ children_trace dotprint (fst (apply_each function (child_job_dirs listdir isdir w path folders) w))
       \<and> w' = snd (apply_each function (child_job_dirs listdir isdir w path folders) w)"
  using assms(2)
proof (induction folders arbitrary: results tr w)
  case Nil
  then show ?case by (simp add: child_job_dirs_def)
next
  case (Cons folder folders)
  let ?jf = "os_path_join path folder"
  show ?case
  proof (cases "is_job_dir listdir isdir w ?jf")
    case False
    then have "visit_folders listdir isdir function path dotprint folders results tr w = (Inr rs, tr', w')"
      using Cons.prems
      by (auto simp: is_job_dir_def job_dir_check_def Let_def split: if_splits sum.splits)
    from Cons.IH[OF this] False show ?thesis
      by (simp add: child_job_dirs_def)
  next
    case True
    obtain x w1 where f: "function ?jf w = (x, w1)" by (cases "function ?jf w")
    have same: "\<And>q. job_dir_check listdir isdir w1 q = job_dir_check listdir isdir w q"
      using keeps_job_dirsD[OF assms(1) f] .
    then have cj: "child_job_dirs listdir isdir w1 path folders = child_job_dirs listdir isdir w path folders"
      by (simp add: child_job_dirs_def is_job_dir_def)
    show ?thesis
    proof (cases x)
      case (Inr r)
      then have "visit_folders listdir isdir function path dotprint folders (results @ [r])
                  (tr @ [Apply ?jf] @ dot dotprint) w1 = (Inr rs, tr', w')"
        using Cons.prems True f
        by (auto simp: is_job_dir_def job_dir_check_def Let_def split: if_splits sum.splits)
      from Cons.IH[OF this] True f Inr cj show ?thesis
        by (simp add: child_job_dirs_def case_prod_beta)
    next
      case (Inl e)
      then have "is_Exception e \<and> visit_folders listdir isdir function path dotprint folders results
                  (tr @ [Apply ?jf, WarnExn e, Warn skipping] @ dot dotprint) w1 = (Inr rs, tr', w')"
        using Cons.prems True f
        by (auto simp: is_job_dir_def job_dir_check_def Let_def split: if_splits sum.splits)
      then have "visit_folders listdir isdir function path dotprint folders results
                  (tr @ [Apply ?jf, WarnExn e, Warn skipping] @ dot dotprint) w1 = (Inr rs, tr', w')"
        by simp
      from Cons.IH[OF this] True f Inl cj show ?thesis
        by (simp add: child_job_dirs_def case_prod_beta)
    qed
  qed
qed


lemma visit_folders_returns:
  assumes "keeps_job_dirs listdir isdir function"
    and "raises_only_Exception function"
    and "\<forall>f\<in>set folders. \<forall>e. job_dir_check listdir isdir w (os_path_join path f) \<noteq> Inl e"
  shows "\<exists>rs tr' w'. visit_folders listdir isdir function path dotprint folders results tr w = (Inr rs, tr', w')"
  using assms(3)
proof (induction folders arbitrary: results tr w)
  case Nil
  then show ?case by simp
next
  case (Cons folder folders)
  let ?jf = "os_path_join path folder"
  obtain x w1 where f: "function ?jf w = (x, w1)" by (cases "function ?jf w")
  have same: "\<And>q. job_dir_check listdir isdir w1 q = job_dir_check listdir isdir w q"
    using keeps_job_dirsD[OF assms(1) f] .
  have exc: "\<And>e. x = Inl e \<Longrightarrow> is_Exception e"
    using assms(2) f unfolding raises_only_Exception_def by (metis fst_conv)
  have rest: "\<forall>f\<in>set folders. \<forall>e. job_dir_check listdir isdir w (os_path_join path f) \<noteq> Inl e"
    using Cons.prems by simp
  then have rest1: "\<forall>f\<in>set folders. \<forall>e. job_dir_check listdir isdir w1 (os_path_join path f) \<noteq> Inl e"
    by (simp add: same)
  have here: "\<forall>e. job_dir_check listdir isdir w ?jf \<noteq> Inl e"
    using Cons.prems by simp
  show ?case
  proof (cases "is_job_dir listdir isdir w ?jf")
    case False
    then have "visit_folders listdir isdir function path dotprint (folder # folders) results tr w
             = visit_folders listdir isdir function path dotprint folders results tr w"
      using here
      by (auto simp: is_job_dir_def job_dir_check_def Let_def split: if_splits sum.splits)
    then show ?thesis using Cons.IH[OF rest] by simp
  next
    case True
    show ?thesis
    proof (cases x)
      case (Inr r)
      then have "visit_folders listdir isdir function path dotprint (folder # folders) results tr w
             = visit_folders listdir isdir function path dotprint folders (results @ [r])
                  (tr @ [Apply ?jf] @ dot dotprint) w1"
        using True f
        by (auto simp: is_job_dir_def job_dir_check_def Let_def split: if_splits sum.splits)
      then show ?thesis using Cons.IH[OF rest1] by simp
    next
      case (Inl e)
      then have "visit_folders listdir isdir function path dotprint (folder # folders) results tr w
             = visit_folders listdir isdir function path dotprint folders results
                  (tr @ [Apply ?jf, WarnExn e, Warn skipping] @ dot dotprint) w1"
        using True f exc
        by (auto simp: is_job_dir_def job_dir_check_def Let_def split: if_splits sum.splits)
      then show ?thesis using Cons.IH[OF rest1] by simp
    qed
  qed
qed

lemma apply_each_paths: "map fst (fst (apply_each function ps w)) = ps"
  by (induction ps arbitrary: w) (auto simp: case_prod_beta)

lemma applied_children_trace: "applied (children_trace d xs) = map fst xs"
  by (induction d xs rule: children_trace.induct) auto

lemma warned_children_trace: "warned (children_trace d xs) = failures xs"
  by (induction d xs rule: children_trace.induct) auto






text \<open>The walk over the example tree.\<close>

lemmas example_defs = example_listdir_def example_isdir_def example_operation_def
  interrupted_operation_def

lemma ex_keeps: "keeps_job_dirs example_listdir example_isdir example_operation"
  by (simp add: keeps_job_dirs_def job_dir_check_def example_listdir_def example_isdir_def)


lemma ex_children: "child_job_dirs example_listdir example_isdir (0::nat) ''/runs'' [''a'', ''b'', ''c'', ''notes.txt'']
   = [''/runs/a'', ''/runs/b'']"
  by (simp add: child_job_dirs_def is_job_dir_def job_dir_check_def example_defs scriptname_def os_path_join_def os_path_isabs_def)




lemma recursive_function_unlistable:
  "listdir w path = Inl e \<Longrightarrow>
     recursive_function listdir isdir function path dotprint w = (Inl e, [], w)"
  by (simp add: recursive_function_def)

lemma printed_dot: "printed (dot d) = (if d then [''.''] else [])"
  by (simp add: dot_def)

lemma ex_raises: "raises_only_Exception example_operation"
  by (simp add: raises_only_Exception_def example_operation_def)

lemma ex_listable:
  "children_listable example_listdir example_isdir (0::nat) ''/runs'' [''a'', ''b'', ''c'', ''notes.txt'']"
  by (simp add: children_listable_def job_dir_check_def example_defs os_path_join_def os_path_isabs_def)



text \<open>
  Claim C6, amended. When the operation raises nothing but instances of
  \<^verbatim>\<open>Exception\<close>, leaves the job directories what they are, and the child
  directories can be listed, the walk returns: the operation is applied to every
  candidate, each exception is logged as a warning, and the result is the list of the
  values of the successful applications, as for the operation applied to each candidate
  in turn.
\<close>

theorem recursive_function_isolates_Exceptions:
  assumes "listdir w path = Inr entries"
    and "keeps_job_dirs listdir isdir function"
    and "raises_only_Exception function"
    and "children_listable listdir isdir w path entries"
  shows "fst (recursive_function listdir isdir function path dotprint w)
           = Inr (successes (fst (apply_each function (candidates listdir isdir w path entries) w)))
       \<and> applied (fst (snd (recursive_function listdir isdir function path dotprint w)))
           = candidates listdir isdir w path entries
       \<and> warned (fst (snd (recursive_function listdir isdir function path dotprint w)))
           = failures (fst (apply_each function (candidates listdir isdir w path entries) w))
       \<and> snd (snd (recursive_function listdir isdir function path dotprint w))
           = snd (apply_each function (candidates listdir isdir w path entries) w)"
proof (cases "scriptname \<in> set entries")
  case True
  obtain x w1 where f: "function path w = (x, w1)" by (cases "function path w")
  have exc: "\<And>e. x = Inl e \<Longrightarrow> is_Exception e"
    using assms(3) f unfolding raises_only_Exception_def by (metis fst_conv)
  show ?thesis
    using True assms(1) f exc
    by (cases x) (auto simp: recursive_function_def candidates_def)
next
  case False
  obtain rs tr' w' where v: "visit_folders listdir isdir function path dotprint entries [] [] w = (Inr rs, tr', w')"
    using visit_folders_returns[OF assms(2) assms(3), of entries w path dotprint "[]" "[]"] assms(4)
    unfolding children_listable_def by blast
  have r: "recursive_function listdir isdir function path dotprint w = (Inr rs, tr', w')"
    using False assms(1) v by (simp add: recursive_function_def)
  show ?thesis
    using visit_folders_normal[OF assms(2) v] r False
    by (simp add: candidates_def applied_children_trace warned_children_trace apply_each_paths)
qed

theorem recursive_function_isolates_Exceptions_witness:
  "fst (recursive_function example_listdir example_isdir example_operation ''/runs'' False 0)
     = Inr [''/runs/b'']
   \<and> applied (fst (snd (recursive_function example_listdir example_isdir example_operation ''/runs'' False 0)))
     = [''/runs/a'', ''/runs/b'']
   \<and> warned (fst (snd (recursive_function example_listdir example_isdir example_operation ''/runs'' False 0)))
     = [OtherException ''failed'']"
proof -
  have l: "example_listdir 0 ''/runs'' = Inr [''a'', ''b'', ''c'', ''notes.txt'']"
    by (simp add: example_listdir_def)
  show ?thesis
    using recursive_function_isolates_Exceptions[OF l ex_keeps ex_raises ex_listable, of False]
    by (simp add: candidates_def scriptname_def ex_children example_operation_def)
qed

text \<open>
  Claim C6 as stated fails: a \<^verbatim>\<open>KeyboardInterrupt\<close> raised by the operation in
  \<^verbatim>\<open>/runs/a\<close> is not caught by \<^verbatim>\<open>except Exception\<close>; it leaves the walk, and
  \<^verbatim>\<open>/runs/b\<close> is never visited.
\<close>

theorem recursive_function_interrupt_escapes:
  "recursive_function example_listdir example_isdir interrupted_operation ''/runs'' False 0
     = (Inl KeyboardInterrupt, [Apply ''/runs/a''], Suc 0)"
  by (simp add: recursive_function_def example_defs scriptname_def os_path_join_def os_path_isabs_def dot_def Let_def)


subsection \<open>The paths of a run\<close>

lemmas fs_defs = os_path_isabs_def os_path_join_def os_path_abspath_def os_path_normpath_def
  os_path_basename_def split_on_def locate_def node_of_def node_at_def os_path_exists_def os_path_isdir_def
  create_def os_mkdir_def os_symlink_def os_makedirs_def shutil_rmtree_def open_read_def
  open_write_def readlines_def writelines_def py_print_def py_input_def warn_def
  bind_def return_def raise_def lift_def Let_def

lemma os_path_isabs_join: "os_path_isabs a \<Longrightarrow> os_path_isabs (os_path_join a b)"
  by (cases a) (auto simp: os_path_isabs_def os_path_join_def split: list.splits)


text \<open>
  Claim C5. A relative \<open>rootdir\<close> fails with the \<^verbatim>\<open>PathException\<close> that names
  \<^verbatim>\<open>rootdir\<close>; with an absolute \<open>rootdir\<close>, a relative \<open>qualikizdir\<close> that is
  supplied (not empty) fails naming \<^verbatim>\<open>qualikizdir\<close>, and then a relative supplied
  \<open>runsdir\<close> fails naming \<^verbatim>\<open>runsdir\<close>. With every supplied path absolute the
  construction succeeds: the paths are stored as they are, and a path left out is
  \<open>rootdir\<close> joined with \<^verbatim>\<open>tools/qualikiz\<close> or with \<^verbatim>\<open>runs\<close>.
\<close>

theorem Run_init_absolute_paths:
  "(\<not> os_path_isabs r \<longrightarrow>
       (Run_init r q s :: exn + 'b Run) = Inl (PathException ''rootdir''))
 \<and> (os_path_isabs r \<and> q \<noteq> [] \<and> \<not> os_path_isabs q \<longrightarrow>
       (Run_init r q s :: exn + 'b Run) = Inl (PathException ''qualikizdir''))
 \<and> (os_path_isabs r \<and> (q = [] \<or> os_path_isabs q) \<and> s \<noteq> [] \<and> \<not> os_path_isabs s \<longrightarrow>
       (Run_init r q s :: exn + 'b Run) = Inl (PathException ''runsdir''))
 \<and> (os_path_isabs r \<and> (q = [] \<or> os_path_isabs q) \<and> (s = [] \<or> os_path_isabs s) \<longrightarrow>
       (Run_init r q s :: exn + 'b Run) =
         Inr \<lparr>jobs = [], rootdir = r,
              qualikizdir = (if q = [] then os_path_join r ''tools/qualikiz'' else q),
              runsdir = (if s = [] then os_path_join r ''runs'' else s)\<rparr>)"
  by (auto simp: Run_init_def Let_def os_path_isabs_join)

theorem Run_init_absolute_paths_witness:
  "(Run_init ''QuaLiKiz'' [] [] :: exn + unit Run) = Inl (PathException ''rootdir'')
 \<and> (Run_init ''/home/QuaLiKiz'' ''tools'' [] :: exn + unit Run) = Inl (PathException ''qualikizdir'')
 \<and> (Run_init ''/home/QuaLiKiz'' [] ''../runs'' :: exn + unit Run) = Inl (PathException ''runsdir'')
 \<and> (Run_init ''/home/QuaLiKiz'' [] ''/scratch/runs'' :: exn + unit Run) =
       Inr \<lparr>jobs = [], rootdir = ''/home/QuaLiKiz'', qualikizdir = ''/home/QuaLiKiz/tools/qualikiz'',
            runsdir = ''/scratch/runs''\<rparr>"
  using Run_init_absolute_paths[of "''QuaLiKiz''" "[]" "[]", where ?'b = unit]
    Run_init_absolute_paths[of "''/home/QuaLiKiz''" "''tools''" "[]", where ?'b = unit]
    Run_init_absolute_paths[of "''/home/QuaLiKiz''" "[]" "''../runs''", where ?'b = unit]
    Run_init_absolute_paths[of "''/home/QuaLiKiz''" "[]" "''/scratch/runs''", where ?'b = unit]
  by (simp add: os_path_isabs_def os_path_join_def)

lemma os_mkdir_exists:
  "os_path_exists w p \<Longrightarrow> os_mkdir p w = (Inl (FileExistsError p), w)"
  by (simp add: os_mkdir_def create_def os_path_exists_def node_at_def)

lemma locate_terminal [simp]:
  "locate (w\<lparr>stdin := a\<rparr>) p = locate w p" "locate (w\<lparr>stdout := b\<rparr>) p = locate w p"
  "locate (w\<lparr>warnings := c\<rparr>) p = locate w p"
  by (simp_all add: locate_def)

lemma node_at_terminal [simp]:
  "node_at (w\<lparr>stdin := a\<rparr>) p = node_at w p" "node_at (w\<lparr>stdout := b\<rparr>) p = node_at w p"
  "node_at (w\<lparr>warnings := c\<rparr>) p = node_at w p"
  by (simp_all add: node_at_def node_of_def)


subsection \<open>The last component of a joined path\<close>

text \<open>
  A simple name joined to any path is located at components that end with the name, so
  two different simple names are never located at the same node.
\<close>

lemma split_from_nonempty: "split_from sep cur s \<noteq> []"
  by (induction s arbitrary: cur) auto

lemma split_from_append:
  "split_from sep cur (q @ s) =
     butlast (split_from sep cur q) @ split_from sep (last (split_from sep cur q)) s"
  by (induction q arbitrary: cur) (auto simp: split_from_nonempty)

lemma split_from_no_sep: "sep \<notin> set n \<Longrightarrow> split_from sep cur n = [cur @ n]"
  by (induction n arbitrary: cur) auto

lemma split_from_snoc_sep: "last (split_from sep cur (q @ [sep])) = []"
  by (simp add: split_from_append)

lemma split_on_dir_name:
  assumes "q = [] \<or> last q = sep" and "sep \<notin> set n"
  shows "\<exists>xs. split_on sep q = xs @ [[]] \<and> split_on sep (q @ n) = xs @ [n]"
proof (cases "q = []")
  case True
  then show ?thesis using assms(2) by (simp add: split_on_def split_from_no_sep)
next
  case False
  then obtain q' where q: "q = q' @ [sep]"
    using assms(1) by (metis append_butlast_last_id)
  have l: "last (split_from sep [] q) = []"
    unfolding q by (rule split_from_snoc_sep)
  have "split_on sep (q @ n) = butlast (split_from sep [] q) @ [n]"
    using assms(2) by (simp add: split_on_def split_from_append[of sep "[]" q n] l split_from_no_sep)
  moreover have "split_on sep q = butlast (split_from sep [] q) @ [[]]"
    using l split_from_nonempty[of sep "[]" q] unfolding split_on_def
    by (metis append_butlast_last_id)
  ultimately show ?thesis by blast
qed

lemma normpath_comps_append:
  "normpath_comps b acc (xs @ ys) = normpath_comps b (normpath_comps b acc xs) ys"
  by (induction xs arbitrary: acc) auto

lemma normpath_comps_simple:
  "simple_name n \<Longrightarrow> normpath_comps b acc [n] = acc @ [n]"
  by (simp add: simple_name_def)

lemma join_as_append:
  assumes "\<not> os_path_isabs n"
  shows "\<exists>q. os_path_join p n = q @ n \<and> (q = [] \<or> last q = CHR ''/'')"
proof -
  have "os_path_join p n = p @ n \<and> (p = [] \<or> last p = CHR ''/'')
      \<or> os_path_join p n = (p @ ''/'') @ n"
    using assms by (auto simp: os_path_join_def)
  then show ?thesis by (metis last_snoc append_Cons append_Nil append_assoc)
qed

lemma simple_name_not_abs: "simple_name n \<Longrightarrow> \<not> os_path_isabs n"
  by (cases n) (auto simp: simple_name_def os_path_isabs_def)

lemma locate_join_simple:
  assumes "simple_name n"
  shows "\<exists>cs. locate w (os_path_join p n) = cs @ [n]"
proof -
  have na: "\<not> os_path_isabs n" using assms by (rule simple_name_not_abs)
  obtain q where q: "os_path_join p n = q @ n" "q = [] \<or> last q = CHR ''/''"
    using join_as_append[OF na] by blast
  let ?s = "if os_path_isabs (os_path_join p n) then os_path_join p n
            else os_path_join (cwd w) (os_path_join p n)"
  have "\<exists>q'. ?s = q' @ n \<and> (q' = [] \<or> last q' = CHR ''/'')"
  proof (cases "os_path_isabs (os_path_join p n)")
    case True
    then show ?thesis using q by auto
  next
    case False
    have "os_path_join (cwd w) (q @ n) = (cwd w @ q) @ n \<and> (cwd w = [] \<or> last (cwd w) = CHR ''/'')
        \<or> os_path_join (cwd w) (q @ n) = (cwd w @ ''/'' @ q) @ n"
      using False q(1) by (auto simp: os_path_join_def)
    then show ?thesis
      using False q by (cases "q = []") (auto simp: )
  qed
  then obtain q' where q': "?s = q' @ n" "q' = [] \<or> last q' = CHR ''/''" by blast
  have ns: "CHR ''/'' \<notin> set n" using assms by (simp add: simple_name_def)
  obtain xs where "split_on CHR ''/'' (q' @ n) = xs @ [n]"
    using split_on_dir_name[OF q'(2) ns] by blast
  then have "locate w (os_path_join p n) = normpath_comps True [] xs @ [n]"
    unfolding locate_def q'(1)
    by (simp add: normpath_comps_append normpath_comps_simple[OF assms] del: normpath_comps.simps)
  then show ?thesis by blast
qed

lemma locate_join_neq:
  assumes "simple_name a" "simple_name b" "a \<noteq> b"
  shows "locate w (os_path_join p a) \<noteq> locate w' (os_path_join p' b)"
  using locate_join_simple[OF assms(1), of w p] locate_join_simple[OF assms(2), of w' p'] assms(3)
  by auto


subsection \<open>What a job directory holds after \<^verbatim>\<open>EmptyJob.to_file\<close>\<close>

text \<open>
  A procedure that returns went through each of its steps; a file that was written holds
  what was written, and the files located elsewhere are as before.
\<close>

lemma bind_Inr:
  "bind m k w = (Inr v, w') \<Longrightarrow> \<exists>x w1. m w = (Inr x, w1) \<and> k x w1 = (Inr v, w')"
  by (auto simp: bind_def split: prod.splits sum.splits)

lemma open_write_Inr:
  assumes "open_write p c w = (Inr u, w')"
  shows "w' = w\<lparr>fs := AList.update (locate w p) (File c) (fs w)\<rparr>" and "locate w p \<noteq> []"
  using assms
  by (auto simp: open_write_def node_at_def node_of_def split: option.splits node.splits if_splits)

lemma open_write_text:
  assumes "open_write p c w = (Inr u, w')"
  shows "file_text w' p = Some c"
    and "locate w q \<noteq> locate w p \<Longrightarrow> file_text w' q = file_text w q"
    and "locate w' q = locate w q"
proof -
  note o = open_write_Inr[OF assms]
  show l: "locate w' q = locate w q" for q
    unfolding o(1) by (simp add: locate_def)
  show "file_text w' p = Some c"
    using o(2) unfolding file_text_def node_at_def l unfolding o(1)
    by (simp add: node_of_def update_conv')
  show "locate w q \<noteq> locate w p \<Longrightarrow> file_text w' q = file_text w q"
    unfolding file_text_def node_at_def l unfolding o(1)
    by (simp add: node_of_def update_conv')
qed

lemma open_read_Inr:
  "open_read p w = (Inr c, w') \<Longrightarrow> w' = w \<and> file_text w p = Some c"
  by (auto simp: open_read_def file_text_def split: option.splits node.splits)

lemma concat_lines_keepends: "concat (lines_keepends s) = s"
  by (induction s) (auto split: list.splits)

lemma readlines_Inr:
  assumes "readlines p w = (Inr ls, w')"
  shows "w' = w" and "map_option universal_newlines (file_text w p) = Some (concat ls)"
  using assms
  by (auto simp: readlines_def return_def concat_lines_keepends dest!: bind_Inr open_read_Inr)

lemma concat_chars: "concat (map (\<lambda>c. [c]) s) = s"
  by (induction s) auto

lemma pickle_dump_Inr:
  assumes "pickle_dump dumps obj p w = (Inr u, w')"
  shows "map_sum id Some (dumps obj) = Inr (file_text w' p)"
    and "locate w q \<noteq> locate w p \<Longrightarrow> file_text w' q = file_text w q"
    and "locate w' q = locate w q"
proof -
  obtain w1 bytes where 1: "open_write p [] w = (Inr (), w1)"
    and 2: "dumps obj = Inr bytes" and 3: "open_write p bytes w1 = (Inr u, w')"
    using assms by (auto simp: pickle_dump_def lift_def dest!: bind_Inr)
  show "map_sum id Some (dumps obj) = Inr (file_text w' p)"
    using 2 open_write_text(1)[OF 3] by simp
  show "locate w' q = locate w q"
    using open_write_text(3)[OF 1] open_write_text(3)[OF 3] by simp
  show "locate w q \<noteq> locate w p \<Longrightarrow> file_text w' q = file_text w q"
    using open_write_text(2)[OF 1, of q] open_write_text(2)[OF 3, of q] open_write_text(3)[OF 1]
    by simp
qed


lemma simple_names:
  "simple_name ''parameters.py''" "simple_name ''jobdata.pkl''"
  "simple_name ''parameters_template.py''"
  by (simp_all add: simple_name_def)

lemma fill_job_dir_steps:
  assumes "fill_job_dir batch_to_file dumps self qd path mp w = (Inr v, w')"
  shows "\<exists>w5 ls w6 w7.
           (if parameters_script self = []
            then readlines (os_path_join qd ''parameters_template.py'')
            else return (map (\<lambda>c. [c]) (parameters_script self))) w5 = (Inr ls, w6)
         \<and> writelines (os_path_join path ''parameters.py'') ls w6 = (Inr (), w7)
         \<and> (if mp then pickle_dump dumps self (os_path_join path ''jobdata.pkl'')
             else return ()) w7 = (Inr (), w')
         \<and> v = PyNone"
  using assms unfolding fill_job_dir_def
  apply (auto simp: return_def dest!: bind_Inr)
     apply blast+
  done

lemma os_mkdir_cwd: "os_mkdir p w = (Inr u, w') \<Longrightarrow> cwd w' = cwd w"
  by (auto simp: os_mkdir_def create_def split: if_splits option.splits node.splits)

lemma EmptyJob_to_file_Inr:
  assumes "EmptyJob_to_file batch_to_file dumps self runsdir' qualikizdir' overwrite metapickle w
             = (Inr PyNone, w')"
  shows "\<exists>w3. fill_job_dir batch_to_file dumps self qualikizdir'
                (os_path_abspath (cwd w) (os_path_join runsdir' (name self))) metapickle w3
              = (Inr PyNone, w')"
proof -
  have abs: "os_path_isabs qualikizdir'" "os_path_isabs runsdir'"
    using assms by (auto simp: EmptyJob_to_file_def raise_def split: if_splits)
  obtain w1 w2 go_on where
    1: "(if \<not> os_path_isdir w runsdir' then os_mkdir runsdir' w else (Inr (), w)) = (Inr (), w1)"
    and 2: "make_job_dir (os_path_abspath (cwd w1) (os_path_join runsdir' (name self))) overwrite w1
              = (Inr go_on, w2)"
    and 3: "(if go_on then fill_job_dir batch_to_file dumps self qualikizdir'
                (os_path_abspath (cwd w1) (os_path_join runsdir' (name self))) metapickle
             else return (PyInt 1)) w2 = (Inr PyNone, w')"
    using assms abs unfolding EmptyJob_to_file_def
    by (auto dest!: bind_Inr)
  have c: "cwd w1 = cwd w"
    using 1 os_mkdir_cwd by (auto split: if_splits)
  have "go_on" using 3 by (auto simp: return_def split: if_splits)
  then show ?thesis using 3 c by auto
qed


lemma universal_newlines_id: "CHR 0x0D \<notin> set c \<Longrightarrow> universal_newlines c = c"
  by (induction c rule: universal_newlines.induct) auto

text \<open>
  Claim C8. After a materialization that returns \<^verbatim>\<open>None\<close>, the file
  \<^verbatim>\<open>parameters.py\<close> in the job directory holds the parameters script of the job,
  verbatim, when that script is not empty; when it is empty, the template
  \<^verbatim>\<open>parameters_template.py\<close> of the tools directory is a file and
  \<^verbatim>\<open>parameters.py\<close> holds its text as read in text mode, which is the text itself
  when it has no carriage return.
\<close>

theorem EmptyJob_to_file_parameters_script:
  assumes "EmptyJob_to_file batch_to_file dumps self runsdir' qualikizdir' overwrite metapickle w
             = (Inr PyNone, w')"
  shows "(parameters_script self \<noteq> [] \<longrightarrow>
            file_text w' (os_path_join (os_path_abspath (cwd w) (os_path_join runsdir' (name self)))
                            ''parameters.py'')
              = Some (parameters_script self))
       \<and> (parameters_script self = [] \<longrightarrow>
            file_text w' (os_path_join qualikizdir' ''parameters_template.py'') \<noteq> None
          \<and> file_text w' (os_path_join (os_path_abspath (cwd w) (os_path_join runsdir' (name self)))
                            ''parameters.py'')
              = map_option universal_newlines
                  (file_text w' (os_path_join qualikizdir' ''parameters_template.py'')))
       \<and> (CHR 0x0D \<notin> set c \<longrightarrow> universal_newlines c = c)"
proof -
  let ?path = "os_path_abspath (cwd w) (os_path_join runsdir' (name self))"
  let ?par = "os_path_join ?path ''parameters.py''"
  let ?tmp = "os_path_join qualikizdir' ''parameters_template.py''"
  let ?pkl = "os_path_join ?path ''jobdata.pkl''"
  obtain w3 where "fill_job_dir batch_to_file dumps self qualikizdir' ?path metapickle w3
                     = (Inr PyNone, w')"
    using EmptyJob_to_file_Inr[OF assms] by blast
  then obtain w5 ls w6 w7 where
    A: "(if parameters_script self = [] then readlines ?tmp
         else return (map (\<lambda>c. [c]) (parameters_script self))) w5 = (Inr ls, w6)"
    and B: "writelines ?par ls w6 = (Inr (), w7)"
    and C: "(if metapickle then pickle_dump dumps self ?pkl else return ()) w7 = (Inr (), w')"
    using fill_job_dir_steps by blast
  have B': "open_write ?par (concat ls) w6 = (Inr (), w7)"
    using B by (simp add: writelines_def)
  have par7: "file_text w7 ?par = Some (concat ls)"
    using open_write_text(1)[OF B'] .
  have keep: "file_text w' q = file_text w7 q" if "locate w7 q \<noteq> locate w7 ?pkl" for q
  proof (cases metapickle)
    case True
    then show ?thesis using C pickle_dump_Inr(2)[of dumps self ?pkl w7 _ w' q] that by simp
  next
    case False
    then show ?thesis using C by (simp add: return_def)
  qed
  have par: "file_text w' ?par = Some (concat ls)"
    using keep[of ?par] par7 locate_join_neq[OF simple_names(1) simple_names(2)] by simp
  have tmp: "file_text w' ?tmp = file_text w6 ?tmp"
  proof -
    have "file_text w7 ?tmp = file_text w6 ?tmp"
      using open_write_text(2)[OF B', of ?tmp] locate_join_neq[OF simple_names(3) simple_names(1)]
      by simp
    then show ?thesis
      using keep[of ?tmp] locate_join_neq[OF simple_names(3) simple_names(2)] by simp
  qed
  show ?thesis
  proof (intro conjI impI)
    assume "parameters_script self \<noteq> []"
    then have "ls = map (\<lambda>c. [c]) (parameters_script self)"
      using A by (simp add: return_def)
    then show "file_text w' ?par = Some (parameters_script self)"
      using par by (simp add: concat_chars)
  next
    assume e: "parameters_script self = []"
    then have r: "readlines ?tmp w5 = (Inr ls, w6)" using A by simp
    have 6: "map_option universal_newlines (file_text w6 ?tmp) = Some (concat ls)"
      using readlines_Inr[OF r] by simp
    then show "file_text w' ?tmp \<noteq> None" using tmp by auto
    show "file_text w' ?par = map_option universal_newlines (file_text w' ?tmp)"
      using par tmp 6 by auto
  next
    assume "CHR 0x0D \<notin> set c"
    then show "universal_newlines c = c" by (rule universal_newlines_id)
  qed
qed

text \<open>
  Claim C9. After a materialization with the snapshot that returns \<^verbatim>\<open>None\<close>, the
  file \<^verbatim>\<open>jobdata.pkl\<close> in the job directory, which is named after the job, holds
  the pickle of the job; when unpickling inverts pickling on this job, loading the file
  gives an object with the name and the binary path of the job.
\<close>

theorem EmptyJob_to_file_snapshot_roundtrip:
  assumes "EmptyJob_to_file batch_to_file dumps self runsdir' qualikizdir' overwrite True w
             = (Inr PyNone, w')"
    and "\<forall>bytes. dumps self = Inr bytes \<longrightarrow> loads bytes = Some self"
  shows "map_sum id Some (dumps self)
           = Inr (file_text w' (os_path_join (os_path_abspath (cwd w) (os_path_join runsdir' (name self)))
                                  ''jobdata.pkl''))
       \<and> map_option name
            (pickle_load loads w' (os_path_join (os_path_abspath (cwd w) (os_path_join runsdir' (name self)))
                                     ''jobdata.pkl''))
           = Some (name self)
       \<and> map_option binary_path
            (pickle_load loads w' (os_path_join (os_path_abspath (cwd w) (os_path_join runsdir' (name self)))
                                     ''jobdata.pkl''))
           = Some (binary_path self)"
proof -
  let ?path = "os_path_abspath (cwd w) (os_path_join runsdir' (name self))"
  let ?pkl = "os_path_join ?path ''jobdata.pkl''"
  obtain w3 where "fill_job_dir batch_to_file dumps self qualikizdir' ?path True w3
                     = (Inr PyNone, w')"
    using EmptyJob_to_file_Inr[OF assms(1)] by blast
  then obtain w7 where C: "pickle_dump dumps self ?pkl w7 = (Inr (), w')"
    using fill_job_dir_steps[of batch_to_file dumps self qualikizdir' ?path True w3 PyNone w']
    by auto
  have d: "map_sum id Some (dumps self) = Inr (file_text w' ?pkl)"
    using pickle_dump_Inr(1)[OF C] .
  then obtain bytes where b: "dumps self = Inr bytes" "file_text w' ?pkl = Some bytes"
    by (cases "dumps self") auto
  then have "pickle_load loads w' ?pkl = Some self"
    using assms(2) by (simp add: pickle_load_def)
  then show ?thesis using d by simp
qed


lemmas to_file_defs = EmptyJob_to_file_def make_job_dir_def fill_job_dir_def pickle_dump_def
  example_batch_to_file_def example_dumps_def scriptname_def example_world_def example_job_def
  template_job_def affirmative_def

lemma example_job_written:
  "EmptyJob_to_file example_batch_to_file example_dumps example_job ''/runs'' ''/q/tools'' True True
     example_world
   = (Inr PyNone,
      snd (EmptyJob_to_file example_batch_to_file example_dumps example_job ''/runs'' ''/q/tools''
             True True example_world))"
proof -
  have "fst (EmptyJob_to_file example_batch_to_file example_dumps example_job ''/runs'' ''/q/tools''
               True True example_world) = Inr PyNone"
    by (simp add: to_file_defs fs_defs)
  then show ?thesis by (metis prod.collapse)
qed

lemma template_job_written:
  "EmptyJob_to_file example_batch_to_file example_dumps template_job ''/runs'' ''/q/tools'' False True
     example_world
   = (Inr PyNone,
      snd (EmptyJob_to_file example_batch_to_file example_dumps template_job ''/runs'' ''/q/tools''
             False True example_world))"
proof -
  have "fst (EmptyJob_to_file example_batch_to_file example_dumps template_job ''/runs'' ''/q/tools''
               False True example_world) = Inr PyNone"
    by (simp add: to_file_defs fs_defs)
  then show ?thesis by (metis prod.collapse)
qed

lemma example_paths:
  "os_path_join (os_path_abspath (cwd example_world) (os_path_join ''/runs'' (name example_job))) n
     = os_path_join ''/runs/job'' n"
  "os_path_join (os_path_abspath (cwd example_world) (os_path_join ''/runs'' (name template_job))) n
     = os_path_join ''/runs/new'' n"
  by (simp_all add: example_world_def example_job_def template_job_def os_path_abspath_def
        os_path_normpath_def os_path_isabs_def split_on_def Let_def os_path_join_def[of "''/runs''"])

theorem EmptyJob_to_file_parameters_script_witness:
  "file_text
     (snd (EmptyJob_to_file example_batch_to_file example_dumps example_job ''/runs'' ''/q/tools''
             True True example_world))
     ''/runs/job/parameters.py'' = Some ''print(1)''
 \<and> file_text
     (snd (EmptyJob_to_file example_batch_to_file example_dumps template_job ''/runs'' ''/q/tools''
             False True example_world))
     ''/runs/new/parameters.py''
   = map_option universal_newlines
       (file_text
          (snd (EmptyJob_to_file example_batch_to_file example_dumps template_job ''/runs''
                  ''/q/tools'' False True example_world))
          ''/q/tools/parameters_template.py'')"
proof -
  have 1: "parameters_script example_job = ''print(1)''"
    and 2: "parameters_script template_job = []"
    by (simp_all add: example_job_def template_job_def)
  have 3: "os_path_join ''/runs/job'' ''parameters.py'' = ''/runs/job/parameters.py''"
    and 4: "os_path_join ''/runs/new'' ''parameters.py'' = ''/runs/new/parameters.py''"
    and 5: "os_path_join ''/q/tools'' ''parameters_template.py'' = ''/q/tools/parameters_template.py''"
    by (simp_all add: os_path_join_def os_path_isabs_def)
  show ?thesis
    using EmptyJob_to_file_parameters_script[OF example_job_written, of "[]"] EmptyJob_to_file_parameters_script[OF template_job_written, of "[]"]
    unfolding example_paths 1 2 3 4 5 by simp
qed

theorem EmptyJob_to_file_snapshot_roundtrip_witness:
  "map_option name
     (pickle_load example_loads
        (snd (EmptyJob_to_file example_batch_to_file example_dumps example_job ''/runs'' ''/q/tools''
                True True example_world))
        ''/runs/job/jobdata.pkl'') = Some ''job''
 \<and> map_option binary_path
     (pickle_load example_loads
        (snd (EmptyJob_to_file example_batch_to_file example_dumps example_job ''/runs'' ''/q/tools''
                True True example_world))
        ''/runs/job/jobdata.pkl'') = Some ''/q/QuaLiKiz''"
proof -
  have h: "\<forall>bytes. example_dumps example_job = Inr bytes \<longrightarrow> example_loads bytes = Some example_job"
    by (simp add: example_dumps_def example_loads_def example_job_def)
  have 1: "name example_job = ''job''" and 2: "binary_path example_job = ''/q/QuaLiKiz''"
    by (simp_all add: example_job_def)
  have 3: "os_path_join (os_path_abspath (cwd example_world) (os_path_join ''/runs'' ''job''))
             ''jobdata.pkl'' = ''/runs/job/jobdata.pkl''"
    by (simp add: example_world_def os_path_abspath_def os_path_normpath_def os_path_isabs_def
          split_on_def Let_def os_path_join_def)
  show ?thesis
    using EmptyJob_to_file_snapshot_roundtrip[OF example_job_written h]
    unfolding 1 2 3 by simp
qed


subsection \<open>The confirmation before overwriting\<close>

lemma make_job_dir_decline:
  assumes "os_path_exists w p" and "stdin w = resp # rest" and "\<not> affirmative resp"
  shows "make_job_dir p False w =
           (Inr False, w\<lparr>stdin := rest,
              stdout := stdout w @ [''folder exists, overwrite? [Y/n]'', ''aborting'' @ [CHR 0x0A]]\<rparr>)"
  using assms
  by (simp add: make_job_dir_def os_mkdir_exists bind_def py_input_def return_def py_print_def)

lemma make_job_dir_accept:
  assumes "os_path_exists w p" and "stdin w = resp # rest" and "affirmative resp"
  shows "make_job_dir p False w =
           make_job_dir p True (w\<lparr>stdin := rest, stdout := stdout w @ [''folder exists, overwrite? [Y/n]'']\<rparr>)"
  using assms
  by (simp add: make_job_dir_def os_mkdir_exists bind_def py_input_def return_def py_print_def
        os_path_exists_def)

lemma make_job_dir_overwrite:
  "make_job_dir p True w = (Inr go_on, w') \<Longrightarrow> go_on"
  by (auto simp: make_job_dir_def return_def split: prod.splits sum.splits if_splits
        dest!: bind_Inr)

lemma EmptyJob_to_file_overwrite_result:
  assumes "EmptyJob_to_file batch_to_file dumps self runsdir' qualikizdir' True metapickle w
             = (Inr v, w')"
  shows "v = PyNone"
proof -
  have abs: "os_path_isabs qualikizdir'" "os_path_isabs runsdir'"
    using assms by (auto simp: EmptyJob_to_file_def raise_def split: if_splits)
  obtain w1 p w2 go_on where
    2: "make_job_dir p True w1 = (Inr go_on, w2)"
    and 3: "(if go_on then fill_job_dir batch_to_file dumps self qualikizdir' p metapickle
             else return (PyInt 1)) w2 = (Inr v, w')"
    using assms abs unfolding EmptyJob_to_file_def
    by (auto dest!: bind_Inr)
  have "go_on" using 2 by (rule make_job_dir_overwrite)
  then show ?thesis using 3 fill_job_dir_steps by fastforce
qed

text \<open>
  Claim C4. Let the target directory exist inside the runs directory, \<open>overwrite\<close> be
  false and the operator type \<open>resp\<close>. The response counts as an affirmative exactly
  when it is empty, \<^verbatim>\<open>Y\<close> or \<^verbatim>\<open>y\<close>. For every other response the method returns
  \<open>1\<close> and raises nothing, and the world is as before but for the line read and the
  two strings printed: the file system is untouched. An affirmative response goes on as
  a call with \<open>overwrite\<close> true does after the prompt, and never returns \<open>1\<close>.
\<close>

theorem EmptyJob_to_file_confirmation:
  assumes "os_path_isabs qualikizdir'" and "os_path_isabs runsdir'"
    and "os_path_isdir w runsdir'"
    and "os_path_exists w (os_path_abspath (cwd w) (os_path_join runsdir' (name self)))"
    and "stdin w = resp # rest"
  shows "(\<not> affirmative resp \<longrightarrow>
            EmptyJob_to_file batch_to_file dumps self runsdir' qualikizdir' False metapickle w =
              (Inr (PyInt 1),
               w\<lparr>stdin := rest,
                 stdout := stdout w @ [''folder exists, overwrite? [Y/n]'', ''aborting'' @ [CHR 0x0A]]\<rparr>))
       \<and> (affirmative resp \<longrightarrow>
            EmptyJob_to_file batch_to_file dumps self runsdir' qualikizdir' False metapickle w =
              EmptyJob_to_file batch_to_file dumps self runsdir' qualikizdir' True metapickle
                (w\<lparr>stdin := rest, stdout := stdout w @ [''folder exists, overwrite? [Y/n]'']\<rparr>))
       \<and> (affirmative resp \<longrightarrow>
            fst (EmptyJob_to_file batch_to_file dumps self runsdir' qualikizdir' False metapickle w)
              \<noteq> Inr (PyInt 1))
       \<and> (affirmative resp \<longleftrightarrow> resp = [] \<or> resp = ''Y'' \<or> resp = ''y'')"
proof (intro conjI impI)
  let ?p = "os_path_abspath (cwd w) (os_path_join runsdir' (name self))"
  assume n: "\<not> affirmative resp"
  show "EmptyJob_to_file batch_to_file dumps self runsdir' qualikizdir' False metapickle w =
              (Inr (PyInt 1),
               w\<lparr>stdin := rest,
                 stdout := stdout w @ [''folder exists, overwrite? [Y/n]'', ''aborting'' @ [CHR 0x0A]]\<rparr>)"
    using assms(1-3) make_job_dir_decline[OF assms(4,5) n]
    by (simp add: EmptyJob_to_file_def bind_def return_def)
next
  assume a: "affirmative resp"
  let ?w = "w\<lparr>stdin := rest, stdout := stdout w @ [''folder exists, overwrite? [Y/n]'']\<rparr>"
  have d: "os_path_isdir ?w runsdir'"
    using assms(3) by (simp add: os_path_isdir_def)
  have c: "cwd ?w = cwd w"
    by simp
  show "EmptyJob_to_file batch_to_file dumps self runsdir' qualikizdir' False metapickle w =
              EmptyJob_to_file batch_to_file dumps self runsdir' qualikizdir' True metapickle ?w"
    using assms(1-3) d make_job_dir_accept[OF assms(4,5) a]
    by (simp add: EmptyJob_to_file_def bind_def cong: prod.case_cong sum.case_cong if_cong)
  then show "fst (EmptyJob_to_file batch_to_file dumps self runsdir' qualikizdir' False metapickle w)
               \<noteq> Inr (PyInt 1)"
    using EmptyJob_to_file_overwrite_result[of batch_to_file dumps self runsdir' qualikizdir'
            metapickle ?w "PyInt 1"]
    by (metis prod.collapse pyval.distinct(1))
next
  show "affirmative resp \<longleftrightarrow> resp = [] \<or> resp = ''Y'' \<or> resp = ''y''"
    by (simp add: affirmative_def)
qed

theorem EmptyJob_to_file_confirmation_witness:
  "EmptyJob_to_file example_batch_to_file example_dumps example_job ''/runs'' ''/q/tools'' False True
     example_world
   = (Inr (PyInt 1),
      example_world\<lparr>stdin := [],
        stdout := [''folder exists, overwrite? [Y/n]'', ''aborting'' @ [CHR 0x0A]]\<rparr>)"
proof -
  have 1: "os_path_isabs ''/q/tools''" and 2: "os_path_isabs ''/runs''"
    by (simp_all add: os_path_isabs_def)
  have 3: "os_path_isdir example_world ''/runs''"
    by (simp add: example_world_def fs_defs)
  have 4: "os_path_exists example_world
             (os_path_abspath (cwd example_world) (os_path_join ''/runs'' (name example_job)))"
    by (simp add: example_world_def example_job_def fs_defs)
  have 5: "stdin example_world = ''n'' # []"
    by (simp add: example_world_def)
  show ?thesis
    using EmptyJob_to_file_confirmation[OF 1 2 3 4 5, of example_batch_to_file example_dumps True]
    by (simp add: affirmative_def example_world_def)
qed


subsection \<open>\<^verbatim>\<open>Run.to_file\<close> and a job that fails\<close>

lemma bind_return: "bind (return x) k w = k x w"
  by (simp add: bind_def return_def)

lemma bind_assoc: "bind (bind m f) g w = bind m (\<lambda>x. bind (f x) g) w"
  by (simp add: bind_def split: prod.splits sum.splits)

lemma jobs_to_file_append:
  "jobs_to_file b d r q ov (xs @ ys) w
     = bind (jobs_to_file b d r q ov xs) (\<lambda>_. jobs_to_file b d r q ov ys) w"
proof (induction xs arbitrary: w)
  case Nil
  then show ?case by (simp add: bind_return)
next
  case (Cons x xs)
  obtain key job where x: "x = (key, job)" by (cases x)
  show ?case
    unfolding x
    by (simp add: bind_assoc) (auto simp: bind_def Cons.IH split: prod.splits sum.splits)
qed

text \<open>
  Claim C2, amended. When the jobs before one job are materialized and the
  materialization of that job raises, \<^verbatim>\<open>Run.to_file\<close> raises the same exception in
  the world that job left: the jobs after it are not attempted, and the outcome is the
  one of the run without them.
\<close>

theorem Run_to_file_stops_at_failure:
  assumes "jobs self = before @ (key, job) # after"
    and "Run_to_file batch_to_file dumps (self\<lparr>jobs := before\<rparr>) overwrite w = (Inr v, w1)"
    and "EmptyJob_to_file batch_to_file dumps job (runsdir self) (qualikizdir self) overwrite True w1
           = (Inl e, w2)"
  shows "Run_to_file batch_to_file dumps self overwrite w = (Inl e, w2)
       \<and> Run_to_file batch_to_file dumps self overwrite w
           = Run_to_file batch_to_file dumps (self\<lparr>jobs := before @ [(key, job)]\<rparr>) overwrite w"
  using assms
  by (simp add: Run_to_file_def jobs_to_file_append bind_def)

lemma template_job_fails:
  "EmptyJob_to_file example_batch_to_file example_dumps template_job ''/runs'' ''/q/tools/qualikiz''
     True True example_world
   = (Inl (FileNotFoundError ''/q/tools/qualikiz/parameters_template.py''),
      snd (EmptyJob_to_file example_batch_to_file example_dumps template_job ''/runs''
             ''/q/tools/qualikiz'' True True example_world))"
proof -
  have "fst (EmptyJob_to_file example_batch_to_file example_dumps template_job ''/runs''
               ''/q/tools/qualikiz'' True True example_world)
          = Inl (FileNotFoundError ''/q/tools/qualikiz/parameters_template.py'')"
    by (simp add: to_file_defs fs_defs)
  then show ?thesis by (metis prod.collapse)
qed

theorem Run_to_file_stops_at_failure_witness:
  "fst (Run_to_file example_batch_to_file example_dumps example_run True example_world)
     = Inl (FileNotFoundError ''/q/tools/qualikiz/parameters_template.py'')"
proof -
  have 1: "jobs example_run = [] @ (''new'', template_job) # [(''job'', example_job)]"
    by (simp add: example_run_def)
  have 2: "Run_to_file example_batch_to_file example_dumps (example_run\<lparr>jobs := []\<rparr>) True
             example_world = (Inr PyNone, example_world)"
    by (simp add: Run_to_file_def return_def)
  have 3: "EmptyJob_to_file example_batch_to_file example_dumps template_job (runsdir example_run)
             (qualikizdir example_run) True True example_world
           = (Inl (FileNotFoundError ''/q/tools/qualikiz/parameters_template.py''),
              snd (EmptyJob_to_file example_batch_to_file example_dumps template_job ''/runs''
                     ''/q/tools/qualikiz'' True True example_world))"
    using template_job_fails by (simp add: example_run_def)
  show ?thesis
    using Run_to_file_stops_at_failure[OF 1 2 3] by simp
qed

text \<open>
  Claim C2 as stated fails: the first job of the run finds no template and raises; the
  second job, which alone is materialized without error, is not attempted: its
  directory still holds the old file and no \<^verbatim>\<open>parameters.py\<close>.
\<close>

theorem Run_to_file_failure_skips_remaining_jobs:
  "fst (Run_to_file example_batch_to_file example_dumps example_run True example_world)
     = Inl (FileNotFoundError ''/q/tools/qualikiz/parameters_template.py'')
 \<and> file_text (snd (Run_to_file example_batch_to_file example_dumps example_run True example_world))
       ''/runs/job/old.txt'' = Some ''old''
 \<and> \<not> os_path_exists
       (snd (Run_to_file example_batch_to_file example_dumps example_run True example_world))
       ''/runs/job/parameters.py''
 \<and> fst (EmptyJob_to_file example_batch_to_file example_dumps example_job ''/runs''
          ''/q/tools/qualikiz'' True True example_world) = Inr PyNone"
  by (simp add: Run_to_file_def example_run_def file_text_def to_file_defs fs_defs)


subsection \<open>Submission with \<^verbatim>\<open>run_job\<close>\<close>

lemma open_write_writable:
  "writable w p \<Longrightarrow>
     open_write p c w = (Inr (), w\<lparr>fs := AList.update (locate w p) (File c) (fs w)\<rparr>)"
  by (auto simp: writable_def open_write_def split: option.splits node.splits)

lemma warn_missing_input_Inr:
  "warn_missing_input job_folder w = (Inr (), snd (warn_missing_input job_folder w))"
  by (simp add: warn_missing_input_def warn_def)

lemma last_token_Inr:
  "split_ws [] output \<noteq> [] \<Longrightarrow> last_token output = Inr (last (split_ws [] output))"
  by (cases "split_ws [] output") (simp_all add: last_token_def)

lemma last_token_none:
  "split_ws [] output = [] \<Longrightarrow> last_token output = Inl IndexError"
  by (simp add: last_token_def)

lemma run_job_success:
  assumes "check_output ''git describe --tags'' (snd (warn_missing_input job_folder w))
             = (Inr describe, w2)"
    and "utf8_valid (map of_char (strip describe))"
    and "check_output (''sbatch --workdir='' @ job_folder @ '' ''
                       @ os_path_join job_folder scriptname) w2 = (Inr output, w3)"
    and "split_ws [] output \<noteq> []"
    and "utf8_valid (map of_char (last (split_ws [] output)))"
    and "writable w3 (os_path_join job_folder metadatafile)"
  shows "run_job check_output now job_folder w =
           (Inr PyNone,
            w3\<lparr>fs := AList.update (locate w3 (os_path_join job_folder metadatafile))
                       (File (csv_writerow [''jobnumber'', last (split_ws [] output)]
                              @ csv_writerow [''submittime'', now]
                              @ csv_writerow [''qualikiz_version'', strip describe]))
                       (fs w3),
               stdout := stdout w3 @ [last (split_ws [] output) @ [CHR 0x0A]]\<rparr>)"
proof -
  obtain w1 where w1: "warn_missing_input job_folder w = (Inr (), w1)"
    using warn_missing_input_Inr by blast
  then have g: "check_output ''git describe --tags'' w1 = (Inr describe, w2)"
    using assms(1) by simp
  show ?thesis
    unfolding run_job_def
    using w1 g assms(2,3,5) last_token_Inr[OF assms(4)] open_write_writable[OF assms(6)]
    by (simp add: bind_def lift_def decode_utf8_def return_def py_print_def)
qed

lemma run_job_Inr:
  "run_job check_output now job_folder w = (Inr v, w') \<Longrightarrow> v = PyNone"
  unfolding run_job_def by (auto simp: return_def dest!: bind_Inr)

lemma split_ws_no_space:
  "\<forall>c\<in>set cur. \<not> is_space c \<Longrightarrow> t \<in> set (split_ws cur s) \<Longrightarrow> c \<in> set t \<Longrightarrow> \<not> is_space c"
  by (induction cur s arbitrary: t rule: split_ws.induct) (auto split: if_splits)

lemma csv_field_plain:
  "\<forall>c\<in>set s. c \<notin> set [CHR '','', CHR 0x22, CHR 0x0D, CHR 0x0A] \<Longrightarrow> csv_field s = s"
  by (auto simp: csv_field_def)

text \<open>
  Claim C7. Let the version query and the submission return, the output of the
  scheduler hold a token, the bytes decode, and the metadata file be writable. Then the
  job number is the last whitespace-delimited token of the output, and after
  \<^verbatim>\<open>run_job\<close> the metadata file holds exactly three rows, for
  \<^verbatim>\<open>jobnumber\<close>, \<^verbatim>\<open>submittime\<close> and \<^verbatim>\<open>qualikiz_version\<close> in this order,
  each of two comma-separated fields, with no header and nothing of an earlier file.
  The first row is \<^verbatim>\<open>jobnumber,\<close> and the token when the token needs no quoting.
\<close>

theorem run_job_metadata:
  assumes "check_output ''git describe --tags'' (snd (warn_missing_input job_folder w))
             = (Inr describe, w2)"
    and "utf8_valid (map of_char (strip describe))"
    and "check_output (''sbatch --workdir='' @ job_folder @ '' ''
                       @ os_path_join job_folder scriptname) w2 = (Inr output, w3)"
    and "split_ws [] output \<noteq> []"
    and "utf8_valid (map of_char (last (split_ws [] output)))"
    and "writable w3 (os_path_join job_folder metadatafile)"
  shows "file_text (snd (run_job check_output now job_folder w))
           (os_path_join job_folder metadatafile)
         = Some (csv_writerow [''jobnumber'', last (split_ws [] output)]
                 @ csv_writerow [''submittime'', now]
                 @ csv_writerow [''qualikiz_version'', strip describe])
       \<and> (CHR '','' \<notin> set (last (split_ws [] output))
            \<and> CHR 0x22 \<notin> set (last (split_ws [] output)) \<longrightarrow>
          csv_writerow [''jobnumber'', last (split_ws [] output)]
            = ''jobnumber,'' @ last (split_ws [] output) @ [CHR 0x0D, CHR 0x0A])"
proof
  let ?meta = "os_path_join job_folder metadatafile"
  let ?rows = "csv_writerow [''jobnumber'', last (split_ws [] output)]
                 @ csv_writerow [''submittime'', now]
                 @ csv_writerow [''qualikiz_version'', strip describe]"
  have "file_text (w3\<lparr>fs := AList.update (locate w3 ?meta) (File ?rows) (fs w3)\<rparr>) ?meta
          = Some ?rows"
    using open_write_text(1)[OF open_write_writable[OF assms(6)]] .
  then show "file_text (snd (run_job check_output now job_folder w)) ?meta = Some ?rows"
    unfolding run_job_success[OF assms]
    by (simp add: file_text_def)
next
  let ?t = "last (split_ws [] output)"
  have "?t \<in> set (split_ws [] output)" using assms(4) by simp
  then have ns: "\<forall>c\<in>set ?t. \<not> is_space c"
    using split_ws_no_space[of "[]" ?t "output"] by auto
  show "CHR '','' \<notin> set ?t \<and> CHR 0x22 \<notin> set ?t \<longrightarrow>
          csv_writerow [''jobnumber'', ?t] = ''jobnumber,'' @ ?t @ [CHR 0x0D, CHR 0x0A]"
  proof
    assume a: "CHR '','' \<notin> set ?t \<and> CHR 0x22 \<notin> set ?t"
    have "\<forall>c\<in>set ?t. c \<notin> set [CHR '','', CHR 0x22, CHR 0x0D, CHR 0x0A]"
      using ns a by (auto simp: is_space_def)
    then have "csv_field ?t = ?t" by (rule csv_field_plain)
    moreover have "csv_field ''jobnumber'' = ''jobnumber''"
      by (simp add: csv_field_def)
    ultimately show "csv_writerow [''jobnumber'', ?t] = ''jobnumber,'' @ ?t @ [CHR 0x0D, CHR 0x0A]"
      by (simp add: csv_writerow_def)
  qed
qed

text \<open>
  Claim C3, amended. Whenever \<^verbatim>\<open>run_job\<close> returns, it returns \<^verbatim>\<open>None\<close>. When
  the submission succeeds, the job number, the last token of the output of the
  scheduler, is printed on a line of its own and \<^verbatim>\<open>None\<close> is returned.
\<close>

theorem run_job_prints_job_number:
  "(run_job check_output now job_folder w = (Inr v, w') \<longrightarrow> v = PyNone)
 \<and> (check_output ''git describe --tags'' (snd (warn_missing_input job_folder w))
             = (Inr describe, w2)
    \<and> utf8_valid (map of_char (strip describe))
    \<and> check_output (''sbatch --workdir='' @ job_folder @ '' ''
                       @ os_path_join job_folder scriptname) w2 = (Inr output, w3)
    \<and> split_ws [] output \<noteq> []
    \<and> utf8_valid (map of_char (last (split_ws [] output)))
    \<and> writable w3 (os_path_join job_folder metadatafile) \<longrightarrow>
      fst (run_job check_output now job_folder w) = Inr PyNone
    \<and> stdout (snd (run_job check_output now job_folder w))
        = stdout w3 @ [last (split_ws [] output) @ [CHR 0x0A]])"
proof (intro conjI impI)
  assume "run_job check_output now job_folder w = (Inr v, w')"
  then show "v = PyNone" by (rule run_job_Inr)
next
  assume a: "check_output ''git describe --tags'' (snd (warn_missing_input job_folder w))
             = (Inr describe, w2)
    \<and> utf8_valid (map of_char (strip describe))
    \<and> check_output (''sbatch --workdir='' @ job_folder @ '' ''
                       @ os_path_join job_folder scriptname) w2 = (Inr output, w3)
    \<and> split_ws [] output \<noteq> []
    \<and> utf8_valid (map of_char (last (split_ws [] output)))
    \<and> writable w3 (os_path_join job_folder metadatafile)"
  note r = run_job_success[of check_output job_folder w describe w2 "output" w3 now]
  show "fst (run_job check_output now job_folder w) = Inr PyNone"
    using a r by simp
  show "stdout (snd (run_job check_output now job_folder w))
        = stdout w3 @ [last (split_ws [] output) @ [CHR 0x0A]]"
    using a r by simp
qed


lemmas run_defs = example_check_output_def example_world_def warn_missing_input_def
  scriptname_def metadatafile_def strip_def is_space_def cont_def

lemma example_submission:
  "example_check_output ''git describe --tags''
     (snd (warn_missing_input ''/runs/job'' example_world))
     = (Inr (''v2.3.1'' @ [CHR 0x0A]), snd (warn_missing_input ''/runs/job'' example_world))"
  "utf8_valid (map of_char (strip (''v2.3.1'' @ [CHR 0x0A])))"
  "example_check_output
     (''sbatch --workdir='' @ ''/runs/job'' @ '' '' @ os_path_join ''/runs/job'' scriptname)
     (snd (warn_missing_input ''/runs/job'' example_world))
     = (Inr (''Submitted batch job 12345'' @ [CHR 0x0A]),
        snd (warn_missing_input ''/runs/job'' example_world))"
  "split_ws [] (''Submitted batch job 12345'' @ [CHR 0x0A]) \<noteq> []"
  "utf8_valid (map of_char (last (split_ws [] (''Submitted batch job 12345'' @ [CHR 0x0A]))))"
  "writable (snd (warn_missing_input ''/runs/job'' example_world))
     (os_path_join ''/runs/job'' metadatafile)"
  by (simp_all add: run_defs writable_def fs_defs)

lemma example_token:
  "last (split_ws [] (''Submitted batch job 12345'' @ [CHR 0x0A])) = ''12345''"
  by (simp add: is_space_def)

lemma example_resubmission:
  "example_check_output ''git describe --tags''
     (snd (warn_missing_input ''/runs/job'' resubmitted_world))
     = (Inr (''v2.3.1'' @ [CHR 0x0A]), snd (warn_missing_input ''/runs/job'' resubmitted_world))"
  "example_check_output
     (''sbatch --workdir='' @ ''/runs/job'' @ '' '' @ os_path_join ''/runs/job'' scriptname)
     (snd (warn_missing_input ''/runs/job'' resubmitted_world))
     = (Inr (''Submitted batch job 12345'' @ [CHR 0x0A]),
        snd (warn_missing_input ''/runs/job'' resubmitted_world))"
  "writable (snd (warn_missing_input ''/runs/job'' resubmitted_world))
     (os_path_join ''/runs/job'' metadatafile)"
  "file_text resubmitted_world ''/runs/job/metadata.csv'' = Some ''jobnumber,7''"
  by (simp_all add: run_defs resubmitted_world_def writable_def file_text_def fs_defs)

theorem run_job_metadata_witness:
  "file_text
     (snd (run_job example_check_output ''2016-01-01 12:00:00'' ''/runs/job'' example_world))
     ''/runs/job/metadata.csv''
   = Some (''jobnumber,12345'' @ [CHR 0x0D, CHR 0x0A]
           @ ''submittime,2016-01-01 12:00:00'' @ [CHR 0x0D, CHR 0x0A]
           @ ''qualikiz_version,v2.3.1'' @ [CHR 0x0D, CHR 0x0A])
 \<and> file_text resubmitted_world ''/runs/job/metadata.csv'' = Some ''jobnumber,7''
 \<and> file_text
     (snd (run_job example_check_output ''2016-01-02 08:30:00'' ''/runs/job'' resubmitted_world))
     ''/runs/job/metadata.csv''
   = Some (''jobnumber,12345'' @ [CHR 0x0D, CHR 0x0A]
           @ ''submittime,2016-01-02 08:30:00'' @ [CHR 0x0D, CHR 0x0A]
           @ ''qualikiz_version,v2.3.1'' @ [CHR 0x0D, CHR 0x0A])"
proof -
  have m: "os_path_join ''/runs/job'' metadatafile = ''/runs/job/metadata.csv''"
    by (simp add: os_path_join_def os_path_isabs_def metadatafile_def)
  have s: "strip (''v2.3.1'' @ [CHR 0x0A]) = ''v2.3.1''"
    by (simp add: strip_def is_space_def)
  show ?thesis
    using run_job_metadata[of example_check_output "''/runs/job''" example_world
        "''v2.3.1'' @ [CHR 0x0A]" "snd (warn_missing_input ''/runs/job'' example_world)"
        "''Submitted batch job 12345'' @ [CHR 0x0A]"
        "snd (warn_missing_input ''/runs/job'' example_world)" "''2016-01-01 12:00:00''"]
      run_job_metadata[of example_check_output "''/runs/job''" resubmitted_world
        "''v2.3.1'' @ [CHR 0x0A]" "snd (warn_missing_input ''/runs/job'' resubmitted_world)"
        "''Submitted batch job 12345'' @ [CHR 0x0A]"
        "snd (warn_missing_input ''/runs/job'' resubmitted_world)" "''2016-01-02 08:30:00''"]
      example_submission example_resubmission
    unfolding example_token m s
    by (simp add: csv_writerow_def csv_field_def)
qed

theorem run_job_prints_job_number_witness:
  "fst (run_job example_check_output ''2016-01-01 12:00:00'' ''/runs/job'' example_world)
     = Inr PyNone
 \<and> stdout (snd (run_job example_check_output ''2016-01-01 12:00:00'' ''/runs/job'' example_world))
     = [''12345'' @ [CHR 0x0A]]"
proof -
  have o: "stdout (snd (warn_missing_input ''/runs/job'' example_world)) = []"
    by (simp add: warn_missing_input_def warn_def example_world_def)
  show ?thesis
    using run_job_prints_job_number[of example_check_output "''2016-01-01 12:00:00''"
        "''/runs/job''" example_world PyNone example_world "''v2.3.1'' @ [CHR 0x0A]"
        "snd (warn_missing_input ''/runs/job'' example_world)"
        "''Submitted batch job 12345'' @ [CHR 0x0A]"
        "snd (warn_missing_input ''/runs/job'' example_world)"]
      example_submission
    unfolding example_token o by simp
qed

text \<open>
  Claim C3 as stated fails: the scheduler answers \<^verbatim>\<open>Submitted batch job 12345\<close>, and
  the result of \<^verbatim>\<open>run_job\<close> is \<^verbatim>\<open>None\<close>, not the job identifier.
\<close>

theorem run_job_result_is_not_job_id:
  "fst (run_job example_check_output ''2016-01-01 12:00:00'' ''/runs/job'' example_world)
     \<noteq> Inr (PyStr ''12345'')
 \<and> fst (run_job example_check_output ''2016-01-01 12:00:00'' ''/runs/job'' example_world)
     = Inr PyNone
 \<and> fst (example_check_output
          (''sbatch --workdir='' @ ''/runs/job'' @ '' '' @ os_path_join ''/runs/job'' scriptname)
          example_world)
     = Inr (''Submitted batch job 12345'' @ [CHR 0x0A])"
  by (simp add: run_job_def last_token_def decode_utf8_def run_defs fs_defs)


end
